theory Spec2Isabelle
  imports Main
begin

section \<open>Front-end types, as the lowering layer queries them\<close>

text \<open>
  The lowering code of \<^verbatim>\<open>llvmhelpers.cpp\<close>, \<^verbatim>\<open>toconstelem.cpp\<close> and \<^verbatim>\<open>abi-x86.cpp\<close>
  never builds a front-end type: it only asks questions of one (\<^verbatim>\<open>ty\<close>,
  \<^verbatim>\<open>size()\<close>, \<^verbatim>\<open>isintegral()\<close>, \<^verbatim>\<open>toBasetype()\<close>, ...). A type is therefore a
  datatype whose fields are the answers to those queries. The class \<^verbatim>\<open>Type\<close> itself
  lives in \<^verbatim>\<open>dmd/mtype.d\<close>, which is not among the sources, so the answers are
  inputs of the model and nothing about them is assumed.
\<close>

datatype TY =
    Tarray | Tsarray | Taarray | Tpointer | Treference | Tfunction | Tident
  | Tclass | Tstruct | Tenum | Tdelegate | Tnone | Tvoid
  | Tint8 | Tuns8 | Tint16 | Tuns16 | Tint32 | Tuns32 | Tint64 | Tuns64
  | Tfloat32 | Tfloat64 | Tfloat80
  | Timaginary32 | Timaginary64 | Timaginary80
  | Tcomplex32 | Tcomplex64 | Tcomplex80
  | Tbool | Tchar | Twchar | Tdchar
  | Terror | Tinstance | Ttypeof | Ttuple | Tslice | Treturn | Tnull | Tvector
  | Tint128 | Tuns128 | Ttraits | Tmixin | Tnoreturn | Ttag

text \<open>The IR types the code compares and builds.\<close>

datatype LLType =
    LLVoid
  | LLInt nat
  | LLFloat
  | LLDouble
  | LLReal
  | LLPointer LLType
  | LLStruct "LLType list"
  | LLArray nat LLType
  | LLVector nat LLType

text \<open>
  \<^verbatim>\<open>sym\<close> of a \<^verbatim>\<open>TypeStruct\<close>: the number of fields (\<^verbatim>\<open>sym->fields.length\<close>),
  \<^verbatim>\<open>sd->isPOD()\<close> and whether a constructor is declared (\<^verbatim>\<open>sd->ctor\<close>).
\<close>

datatype StructDeclaration =
  StructDeclaration (fields_length: nat) (sd_isPOD: bool) (sd_ctor: bool)

text \<open>
  \<^verbatim>\<open>size'\<close> is \<^verbatim>\<open>size()\<close> in bytes, \<^verbatim>\<open>ctype\<close> the IR type cached on the type (what
  \<^verbatim>\<open>DtoType\<close> returns), \<^verbatim>\<open>basetype\<close> the result of \<^verbatim>\<open>toBasetype()\<close> when it is
  another type (an enum's member type) and \<^verbatim>\<open>None\<close> when the type is its own base
  type.
\<close>

datatype Type =
  Type (toChars: string) (ty: TY) (size': nat)
       (isintegral: bool) (isunsigned: bool) (isfloating: bool) (iscomplex: bool)
       (ctype: LLType) (nextOf: "Type option") (basetype: "Type option")
       (sym: "StructDeclaration option")

text \<open>
  Modelled from the spec: \<^verbatim>\<open>Type::toBasetype\<close> and \<^verbatim>\<open>Type::equals\<close> of
  \<^verbatim>\<open>dmd/mtype.d\<close> and \<^verbatim>\<open>DtoType\<close> of \<^verbatim>\<open>gen/tollvm.cpp\<close> are not among the
  sources. Section 6 of the specification: the front end is a source of side-effect-free
  queries on types. The three read the description of the type: its base type, whether
  two types are the same type, and its cached IR type.
\<close>

definition toBasetype :: "Type \<Rightarrow> Type" where
  "toBasetype t = (case basetype t of None \<Rightarrow> t | Some b \<Rightarrow> b)"

definition equals :: "Type \<Rightarrow> Type \<Rightarrow> bool" where
  "equals a b = (a = b)"

definition DtoType :: "Type \<Rightarrow> LLType" where
  "DtoType t = ctype t"

section \<open>IR values, emitted instructions and the build context\<close>

datatype Opcode =
    ZExt | SExt | Trunc | BitCast | ICmpNE | FCmpUNE
  | UIToFP | SIToFP | IntToPtr | PtrToInt | FPExt | FPTrunc | FPToUI | FPToSI
  | Load | Store | MemCpy | InsertValue | ExtractValue | Alloca | GetElementPtr | Neg

text \<open>
  An \<^verbatim>\<open>llvm::Value*\<close> is either a constant or the result of an instruction. The
  code compares values by pointer (\<^verbatim>\<open>src != dst\<close> in \<^verbatim>\<open>DtoAssign\<close>), so the result
  of an instruction carries the position of that instruction in the function: two
  instructions never yield the same value, whatever their operands.
\<close>

datatype LLValue =
    ConstantInt LLType nat
  | ConstantNull LLType
  | UndefValue LLType
  | ConstantExpr Opcode "LLValue list" LLType
  | GlobalRef string LLType
  | Argument string LLType
  | InstResult nat LLType

datatype Instr = Instr Opcode "LLValue list" LLType

fun llTypeOf :: "LLValue \<Rightarrow> LLType" where
  "llTypeOf (ConstantInt t n) = t"
| "llTypeOf (ConstantNull t) = t"
| "llTypeOf (UndefValue t) = t"
| "llTypeOf (ConstantExpr opc ops t) = t"
| "llTypeOf (GlobalRef n t) = t"
| "llTypeOf (Argument n t) = t"
| "llTypeOf (InstResult n t) = t"

fun isaConstant :: "LLValue \<Rightarrow> bool" where
  "isaConstant (Argument n t) = False"
| "isaConstant (InstResult n t) = False"
| "isaConstant v = True"

type_synonym Loc = "string \<times> nat"

text \<open>
  The ambient build context (\<^verbatim>\<open>gIR\<close>, \<^verbatim>\<open>global\<close>): the instructions emitted so
  far into the current function, the diagnostics printed, the error counters and the gag
  depth of the front end, and the pointer width of the data layout.
\<close>

record IRState =
  insts :: "Instr list"
  diagnostics :: "(Loc \<times> string) list"
  errors :: nat
  gaggedErrors :: nat
  gag :: nat
  pointerBits :: nat

text \<open>
  A lowering function either returns to its caller with the context it leaves behind, or
  ends the compiler process through \<^verbatim>\<open>fatal()\<close>, or trips an \<^verbatim>\<open>assert\<close> /
  \<^verbatim>\<open>llvm_unreachable\<close>. \<^verbatim>\<open>fatal()\<close> does not return: the functions below that call
  it as their last statement have no \<^verbatim>\<open>return\<close> after it, and the places that
  want to survive under gagging test \<^verbatim>\<open>global.gag\<close> themselves before calling it
  (\<^verbatim>\<open>fatalError\<close>, \<^verbatim>\<open>DtoConstSymbolAddress\<close>).
\<close>

datatype 'a outcome =
    Returned 'a IRState
  | Fatal IRState
  | AssertFailed

text \<open>
  Modelled from the spec: \<^verbatim>\<open>error(loc, ...)\<close> of \<^verbatim>\<open>dmd/errors.d\<close> is not among the
  sources. Section 7 of the specification: a user-diagnosable error is reported through
  a diagnostic sink tied to a source location; under error gagging it is suppressed and
  only counted, in the side-channel gag counter.
\<close>

definition error :: "Loc \<Rightarrow> string \<Rightarrow> IRState \<Rightarrow> IRState" where
  "error loc msg s =
     (if gag s = 0
      then s\<lparr>diagnostics := diagnostics s @ [(loc, msg)], errors := errors s + 1\<rparr>
      else s\<lparr>gaggedErrors := gaggedErrors s + 1\<rparr>)"

text \<open>
  \<^verbatim>\<open>new llvm::ZExtInst(..., gIR->scopebb())\<close> and its siblings append one
  instruction to the current block and yield its result.
\<close>

definition emit :: "Opcode \<Rightarrow> LLValue list \<Rightarrow> LLType \<Rightarrow> IRState \<Rightarrow> LLValue \<times> IRState" where
  "emit opc ops t s =
     (InstResult (length (insts s)) t, s\<lparr>insts := insts s @ [Instr opc ops t]\<rparr>)"

text \<open>
  The \<^verbatim>\<open>IRBuilder\<close> calls (\<^verbatim>\<open>gIR->ir->CreateICmpNE\<close>, ...) fold an operation
  whose operands are all constants into a constant and emit an instruction otherwise.
  The constant is kept here as the constant expression of the operation, not evaluated:
  what matters below is that nothing is emitted.
\<close>

definition irCreate :: "Opcode \<Rightarrow> LLValue list \<Rightarrow> LLType \<Rightarrow> IRState \<Rightarrow> LLValue \<times> IRState" where
  "irCreate opc ops t s =
     (if list_all isaConstant ops then (ConstantExpr opc ops t, s) else emit opc ops t s)"

text \<open>
  Modelled from the spec: the helpers of \<^verbatim>\<open>gen/tollvm.cpp\<close> and
  \<^verbatim>\<open>gen/complex.cpp\<close> are not among the sources. Section 6 of the specification:
  the layer produces bitcast, load and store instructions into the IR builder; section
  4.2: a repaint changes the static type of a value and not its bits, and a cast to the
  value's own type emits nothing; section 4.5: a boolean is one bit in a register and is
  extended on store; the glossary: a slice is a (length, pointer) pair. So
  \<^verbatim>\<open>DtoBitCast\<close> returns its operand when the type already matches,
  \<^verbatim>\<open>DtoAggrPair\<close> inserts two values into an undefined aggregate, and
  \<^verbatim>\<open>DtoMemType\<close> is the in-memory type (\<^verbatim>\<open>i8\<close> for \<^verbatim>\<open>i1\<close> and
  \<^verbatim>\<open>void\<close>).
\<close>

definition DtoBitCast :: "LLValue \<Rightarrow> LLType \<Rightarrow> IRState \<Rightarrow> LLValue \<times> IRState" where
  "DtoBitCast v t s = (if llTypeOf v = t then (v, s) else irCreate BitCast [v] t s)"

definition DtoSize_t :: "IRState \<Rightarrow> LLType" where
  "DtoSize_t s = LLInt (pointerBits s)"

definition DtoConstSize_t :: "nat \<Rightarrow> IRState \<Rightarrow> LLValue" where
  "DtoConstSize_t n s = ConstantInt (DtoSize_t s) n"

definition DtoMemType :: "Type \<Rightarrow> LLType" where
  "DtoMemType t =
     (if DtoType t = LLVoid \<or> DtoType t = LLInt 1 then LLInt 8 else DtoType t)"

definition DtoPtrToType :: "Type \<Rightarrow> LLType" where
  "DtoPtrToType t = LLPointer (DtoMemType t)"

definition getNullPtr :: "LLType \<Rightarrow> LLValue" where
  "getNullPtr t = ConstantNull t"

definition DtoAggrPair :: "LLType \<Rightarrow> LLValue \<Rightarrow> LLValue \<Rightarrow> IRState \<Rightarrow> LLValue \<times> IRState" where
  "DtoAggrPair t v1 v2 s =
     (case irCreate InsertValue [UndefValue t, v1, ConstantInt (LLInt 32) 0] t s of
        (res, s1) \<Rightarrow> irCreate InsertValue [res, v2, ConstantInt (LLInt 32) 1] t s1)"

fun DtoComplexBaseType :: "Type \<Rightarrow> LLType option" where
  "DtoComplexBaseType t =
     (if ty t = Tcomplex32 then Some LLFloat
      else if ty t = Tcomplex64 then Some LLDouble
      else if ty t = Tcomplex80 then Some LLReal
      else None)"

text \<open>
  Reading the element at index \<open>i\<close> of a constant aggregate built by
  \<^verbatim>\<open>insertvalue\<close> constant expressions: the last insertion at \<open>i\<close> wins.
\<close>

fun aggrElem :: "LLValue \<Rightarrow> nat \<Rightarrow> LLValue option" where
  "aggrElem (ConstantExpr InsertValue [agg, v, ConstantInt it j] t) i =
     (if i = j then Some v else aggrElem agg i)"
| "aggrElem v i = None"

section \<open>The value model\<close>

text \<open>
  Modelled from the spec: the \<^verbatim>\<open>DValue\<close> classes and \<^verbatim>\<open>DtoRVal\<close> /
  \<^verbatim>\<open>DtoLVal\<close> live in \<^verbatim>\<open>gen/dvalue.cpp\<close>, which is not among the sources.
  Sections 3 and 4.1 of the specification: a value is an immediate (register resident,
  not addressable), a constant, an addressable value (holds the address of storage; the
  value must be loaded before use in a register context), a slice (a length and a
  pointer, always decomposed) or a special reference (a pointer to a pointer; one extra
  indirection must be stripped before load or store). \<^verbatim>\<open>DNullValue\<close> is the constant
  that \<^verbatim>\<open>DtoNullValue\<close> builds for types without a special null representation.
\<close>

datatype DValue =
    DImValue Type LLValue
  | DConstValue Type LLValue
  | DNullValue Type LLValue
  | DSliceValue Type LLValue LLValue
  | DLValue Type LLValue
  | DSpecialRefValue Type LLValue

fun dtype :: "DValue \<Rightarrow> Type" where
  "dtype (DImValue t v) = t"
| "dtype (DConstValue t v) = t"
| "dtype (DNullValue t v) = t"
| "dtype (DSliceValue t l p) = t"
| "dtype (DLValue t v) = t"
| "dtype (DSpecialRefValue t v) = t"

fun isLVal :: "DValue \<Rightarrow> bool" where
  "isLVal (DLValue t v) = True"
| "isLVal (DSpecialRefValue t v) = True"
| "isLVal v = False"

definition pointee :: "LLType \<Rightarrow> LLType" where
  "pointee t = (case t of LLPointer e \<Rightarrow> e | _ \<Rightarrow> LLVoid)"

definition DtoLoad :: "LLValue \<Rightarrow> IRState \<Rightarrow> LLValue \<times> IRState" where
  "DtoLoad p s = emit Load [p] (pointee (llTypeOf p)) s"

fun DtoLVal :: "DValue \<Rightarrow> IRState \<Rightarrow> LLValue outcome" where
  "DtoLVal (DLValue t p) s = Returned p s"
| "DtoLVal (DSpecialRefValue t p) s = (case DtoLoad p s of (a, s1) \<Rightarrow> Returned a s1)"
| "DtoLVal v s = AssertFailed"

fun DtoRVal :: "DValue \<Rightarrow> IRState \<Rightarrow> LLValue outcome" where
  "DtoRVal (DImValue t v) s = Returned v s"
| "DtoRVal (DConstValue t v) s = Returned v s"
| "DtoRVal (DNullValue t v) s = Returned v s"
| "DtoRVal (DSliceValue t l p) s =
     (case DtoAggrPair (LLStruct [llTypeOf l, llTypeOf p]) l p s of (v, s1) \<Rightarrow> Returned v s1)"
| "DtoRVal (DLValue t p) s = (case DtoLoad p s of (v, s1) \<Rightarrow> Returned v s1)"
| "DtoRVal (DSpecialRefValue t p) s =
     (case DtoLoad p s of (a, s1) \<Rightarrow> (case DtoLoad a s1 of (v, s2) \<Rightarrow> Returned v s2))"

section \<open>Null values: \<^verbatim>\<open>DtoNullValue\<close>\<close>

definition DtoNullValue :: "Type \<Rightarrow> Loc \<Rightarrow> IRState \<Rightarrow> DValue outcome" where
  "DtoNullValue type0 loc s =
     (let basetype0 = toBasetype type0;
          basety = ty basetype0;
          lltype = DtoType basetype0
      in if iscomplex basetype0 then
           (case DtoComplexBaseType basetype0 of
              None \<Rightarrow> AssertFailed
            | Some basefp \<Rightarrow>
                (case DtoAggrPair (DtoType type0) (ConstantNull basefp) (ConstantNull basefp) s of
                   (res, s1) \<Rightarrow> Returned (DImValue type0 res) s1))
         else if isintegral basetype0 \<or> isfloating basetype0 \<or> basety = Tpointer \<or>
                 basety = Tnull \<or> basety = Tclass \<or> basety = Tdelegate \<or> basety = Taarray then
           Returned (DNullValue type0 (ConstantNull lltype)) s
         else if basety = Tarray then
           (case nextOf basetype0 of
              None \<Rightarrow> AssertFailed
            | Some elem \<Rightarrow>
                Returned (DSliceValue type0 (DtoConstSize_t 0 s) (getNullPtr (DtoPtrToType elem))) s)
         else Fatal (error loc (''`null` not known for type `'' @ toChars type0 @ ''`'') s))"

section \<open>The cast engine\<close>

text \<open>
  Sequencing of lowering steps: the next step runs only when the previous one returned.
\<close>

definition obind :: "'a outcome \<Rightarrow> ('a \<Rightarrow> IRState \<Rightarrow> 'b outcome) \<Rightarrow> 'b outcome" where
  "obind m f = (case m of Returned a s \<Rightarrow> f a s | Fatal s \<Rightarrow> Fatal s | AssertFailed \<Rightarrow> AssertFailed)"

definition lift :: "'a \<times> IRState \<Rightarrow> 'a outcome" where
  "lift p = Returned (fst p) (snd p)"

text \<open>
  The cast functions call into files that are not among the sources
  (\<^verbatim>\<open>gen/complex.cpp\<close>, \<^verbatim>\<open>gen/classes.cpp\<close>, \<^verbatim>\<open>gen/arrays.cpp\<close>) and, for the
  delegate and vector casts, into \<^verbatim>\<open>DtoPaintType\<close>, \<^verbatim>\<open>DtoAllocaDump\<close> and
  \<^verbatim>\<open>DtoAlignment\<close>. \<^verbatim>\<open>DtoPaintType\<close> stands further down in
  \<^verbatim>\<open>llvmhelpers.cpp\<close>; it reports no error, its only failures are assertions, and
  its array branch reaches into \<^verbatim>\<open>gen/arrays.cpp\<close>. All of these enter as
  parameters: the theorems hold whatever they do, and where a theorem needs something of
  them it says so as a hypothesis.
\<close>

record Externals =
  DtoComplex :: "Loc \<Rightarrow> Type \<Rightarrow> DValue \<Rightarrow> IRState \<Rightarrow> DValue outcome"
  DtoCastComplex :: "Loc \<Rightarrow> DValue \<Rightarrow> Type \<Rightarrow> IRState \<Rightarrow> DValue outcome"
  DtoCastClass :: "Loc \<Rightarrow> DValue \<Rightarrow> Type \<Rightarrow> IRState \<Rightarrow> DValue outcome"
  DtoCastArray :: "Loc \<Rightarrow> DValue \<Rightarrow> Type \<Rightarrow> IRState \<Rightarrow> DValue outcome"
  DtoPaintType :: "Loc \<Rightarrow> DValue \<Rightarrow> Type \<Rightarrow> IRState \<Rightarrow> DValue outcome"
  DtoDelegateEquals :: "LLValue \<Rightarrow> IRState \<Rightarrow> LLValue \<times> IRState"
  DtoAllocaDump :: "LLValue \<Rightarrow> LLType \<Rightarrow> nat \<Rightarrow> IRState \<Rightarrow> LLValue \<times> IRState"
  DtoAlignment :: "Type \<Rightarrow> nat"
  DtoArrayAssign :: "Loc \<Rightarrow> DValue \<Rightarrow> DValue \<Rightarrow> int \<Rightarrow> bool \<Rightarrow> IRState \<Rightarrow> unit outcome"

definition isLLVMUnsigned :: "Type \<Rightarrow> bool" where
  "isLLVMUnsigned t = (isunsigned t \<or> ty t = Tpointer)"

definition invalid_cast_msg :: "Type \<Rightarrow> Type \<Rightarrow> string" where
  "invalid_cast_msg fromT toT =
     ''invalid cast from `'' @ toChars fromT @ ''` to `'' @ toChars toT @ ''`''"

text \<open>
  \<^verbatim>\<open>DtoCastInt\<close>. The parameter \<^verbatim>\<open>_to\<close> of the source is \<open>to0\<close> here, and
  \<open>toB\<close>, \<open>fromB\<close> are its locals \<^verbatim>\<open>to\<close> and \<^verbatim>\<open>from\<close> (the base types).
\<close>

definition DtoCastInt :: "Externals \<Rightarrow> Loc \<Rightarrow> DValue \<Rightarrow> Type \<Rightarrow> IRState \<Rightarrow> DValue outcome" where
  "DtoCastInt X loc val to0 s =
     (let tolltype = DtoType to0;
          toB = toBasetype to0;
          fromB = toBasetype (dtype val)
      in if \<not> isintegral fromB then AssertFailed
         else obind (DtoRVal val s) (\<lambda>rval s1.
           if llTypeOf rval = tolltype then Returned (DImValue to0 rval) s1
           else
             let fromsz = size' fromB; tosz = size' toB
             in if ty toB = Tbool then
                  obind (lift (irCreate ICmpNE [rval, ConstantInt (llTypeOf rval) 0] (LLInt 1) s1))
                    (\<lambda>r. Returned (DImValue to0 r))
                else if isintegral toB then
                  (if fromsz < tosz \<or> ty fromB = Tbool then
                     (if isLLVMUnsigned fromB \<or> ty fromB = Tbool
                      then obind (lift (emit ZExt [rval] tolltype s1)) (\<lambda>r. Returned (DImValue to0 r))
                      else obind (lift (emit SExt [rval] tolltype s1)) (\<lambda>r. Returned (DImValue to0 r)))
                   else if tosz < fromsz then
                     obind (lift (emit Trunc [rval] tolltype s1)) (\<lambda>r. Returned (DImValue to0 r))
                   else
                     obind (lift (DtoBitCast rval tolltype s1)) (\<lambda>r. Returned (DImValue to0 r)))
                else if iscomplex toB then DtoComplex X loc toB val s1
                else if isfloating toB then
                  (if isunsigned fromB
                   then obind (lift (emit UIToFP [rval] tolltype s1)) (\<lambda>r. Returned (DImValue to0 r))
                   else obind (lift (emit SIToFP [rval] tolltype s1)) (\<lambda>r. Returned (DImValue to0 r)))
                else if ty toB = Tpointer then
                  obind (lift (irCreate IntToPtr [rval] tolltype s1)) (\<lambda>r. Returned (DImValue to0 r))
                else Fatal (error loc (invalid_cast_msg (dtype val) to0) s1)))"

definition DtoCastPtr :: "Externals \<Rightarrow> Loc \<Rightarrow> DValue \<Rightarrow> Type \<Rightarrow> IRState \<Rightarrow> DValue outcome" where
  "DtoCastPtr X loc val to s =
     (let tolltype = DtoType to;
          totype = toBasetype to;
          fromtype = toBasetype (dtype val)
      in if \<not> (ty fromtype = Tpointer \<or> ty fromtype = Tfunction) then AssertFailed
         else if ty totype = Tpointer \<or> ty totype = Tclass \<or> ty totype = Taarray then
           obind (DtoRVal val s) (\<lambda>src s1.
             obind (lift (DtoBitCast src tolltype s1)) (\<lambda>r. Returned (DImValue to r)))
         else if ty totype = Tbool then
           obind (DtoRVal val s) (\<lambda>src s1.
             obind (lift (irCreate ICmpNE [src, ConstantNull (llTypeOf src)] (LLInt 1) s1))
               (\<lambda>r. Returned (DImValue to r)))
         else if isintegral totype then
           obind (DtoRVal val s) (\<lambda>src s1.
             obind (lift (emit PtrToInt [src] tolltype s1)) (\<lambda>r. Returned (DImValue to r)))
         else Fatal (error loc (invalid_cast_msg (dtype val) to) s))"

definition DtoCastFloat :: "Externals \<Rightarrow> Loc \<Rightarrow> DValue \<Rightarrow> Type \<Rightarrow> IRState \<Rightarrow> DValue outcome" where
  "DtoCastFloat X loc val to s =
     (if dtype val = to then Returned val s
      else
        let tolltype = DtoType to;
            totype = toBasetype to;
            fromtype = toBasetype (dtype val)
        in if \<not> isfloating fromtype then AssertFailed
           else
             let fromsz = size' fromtype; tosz = size' totype
             in if ty totype = Tbool then
                  obind (DtoRVal val s) (\<lambda>rval s1.
                    obind (lift (irCreate FCmpUNE [rval, ConstantNull (llTypeOf rval)] (LLInt 1) s1))
                      (\<lambda>r. Returned (DImValue to r)))
                else if iscomplex totype then DtoComplex X loc to val s
                else if isfloating totype then
                  (if fromsz = tosz then
                     obind (DtoRVal val s) (\<lambda>rval s1.
                       if llTypeOf rval = tolltype then Returned (DImValue to rval) s1
                       else AssertFailed)
                   else if fromsz < tosz then
                     obind (DtoRVal val s) (\<lambda>rval s1.
                       obind (lift (emit FPExt [rval] tolltype s1)) (\<lambda>r. Returned (DImValue to r)))
                   else if tosz < fromsz then
                     obind (DtoRVal val s) (\<lambda>rval s1.
                       obind (lift (emit FPTrunc [rval] tolltype s1)) (\<lambda>r. Returned (DImValue to r)))
                   else Fatal (error loc (invalid_cast_msg (dtype val) to) s))
                else if isintegral totype then
                  (if isunsigned totype then
                     obind (DtoRVal val s) (\<lambda>rval s1.
                       obind (lift (emit FPToUI [rval] tolltype s1)) (\<lambda>r. Returned (DImValue to r)))
                   else
                     obind (DtoRVal val s) (\<lambda>rval s1.
                       obind (lift (emit FPToSI [rval] tolltype s1)) (\<lambda>r. Returned (DImValue to r))))
                else Fatal (error loc (invalid_cast_msg (dtype val) to) s))"

definition DtoCastDelegate :: "Externals \<Rightarrow> Loc \<Rightarrow> DValue \<Rightarrow> Type \<Rightarrow> IRState \<Rightarrow> DValue outcome" where
  "DtoCastDelegate X loc val to s =
     (if ty (toBasetype to) = Tdelegate then DtoPaintType X loc val to s
      else if ty (toBasetype to) = Tbool then
        obind (DtoRVal val s) (\<lambda>rval s1.
          obind (lift (DtoDelegateEquals X rval s1)) (\<lambda>r. Returned (DImValue to r)))
      else Fatal (error loc (invalid_cast_msg (dtype val) to) s))"

definition DtoCastVector :: "Externals \<Rightarrow> Loc \<Rightarrow> DValue \<Rightarrow> Type \<Rightarrow> IRState \<Rightarrow> DValue outcome" where
  "DtoCastVector X loc val to s =
     (if ty (toBasetype (dtype val)) \<noteq> Tvector then AssertFailed
      else
        let totype = toBasetype to; tolltype = DtoType to
        in if ty totype = Tsarray then
             (if isLVal val then
                obind (DtoLVal val s) (\<lambda>vector s1.
                  obind (lift (DtoBitCast vector (LLPointer tolltype) s1))
                    (\<lambda>r. Returned (DLValue to r)))
              else
                obind (DtoRVal val s) (\<lambda>vector s1.
                  obind (lift (DtoAllocaDump X vector tolltype (DtoAlignment X (dtype val)) s1))
                    (\<lambda>array. Returned (DLValue to array))))
           else if ty totype = Tvector \<and> size' to = size' (dtype val) then
             obind (DtoRVal val s) (\<lambda>rval s1.
               obind (lift (DtoBitCast rval tolltype s1)) (\<lambda>r. Returned (DImValue to r)))
           else Fatal (error loc (invalid_cast_msg (dtype val) to) s))"

definition DtoCastStruct :: "Externals \<Rightarrow> Loc \<Rightarrow> DValue \<Rightarrow> Type \<Rightarrow> IRState \<Rightarrow> DValue outcome" where
  "DtoCastStruct X loc val to s =
     (let totype = toBasetype to
      in if ty totype = Tstruct then
           obind (DtoLVal val s) (\<lambda>lval s1.
             obind (lift (DtoBitCast lval (LLPointer (DtoType to)) s1))
               (\<lambda>result. Returned (DLValue to result)))
         else Fatal (error loc
                (''Internal Compiler Error: Invalid struct cast from `'' @ toChars (dtype val) @
                 ''` to `'' @ toChars to @ ''`'') s))"

definition DtoCast :: "Externals \<Rightarrow> Loc \<Rightarrow> DValue \<Rightarrow> Type \<Rightarrow> IRState \<Rightarrow> DValue outcome" where
  "DtoCast X loc val to s =
     (let fromtype = toBasetype (dtype val);
          totype = toBasetype to
      in if ty fromtype = Taarray \<and> ty totype = Taarray then
           (if isLVal val
            then obind (DtoLVal val s) (\<lambda>l. Returned (DLValue to l))
            else obind (DtoRVal val s) (\<lambda>r. Returned (DImValue to r)))
         else if ty fromtype = Taarray \<and> ty totype = Tpointer then
           obind (DtoRVal val s) (\<lambda>r s1.
             obind (lift (DtoBitCast r (DtoType to) s1)) (\<lambda>rval. Returned (DImValue to rval)))
         else if ty fromtype = Taarray \<and> ty totype = Tbool then
           obind (DtoRVal val s) (\<lambda>rval s1.
             obind (lift (irCreate ICmpNE [rval, ConstantNull (llTypeOf rval)] (LLInt 1) s1))
               (\<lambda>r. Returned (DImValue to r)))
         else if equals fromtype totype then Returned val s
         else if ty fromtype = Tvector then DtoCastVector X loc val to s
         else if isintegral fromtype then DtoCastInt X loc val to s
         else if iscomplex fromtype then DtoCastComplex X loc val to s
         else if isfloating fromtype then DtoCastFloat X loc val to s
         else if ty fromtype = Tclass then DtoCastClass X loc val to s
         else if ty fromtype = Tarray \<or> ty fromtype = Tsarray then DtoCastArray X loc val to s
         else if ty fromtype = Tpointer \<or> ty fromtype = Tfunction then DtoCastPtr X loc val to s
         else if ty fromtype = Tdelegate then DtoCastDelegate X loc val to s
         else if ty fromtype = Tstruct then DtoCastStruct X loc val to s
         else if ty fromtype = Tnull \<or> ty fromtype = Tnoreturn then DtoNullValue to loc s
         else Fatal (error loc (invalid_cast_msg (dtype val) to) s))"

text \<open>
  What the front end has been told so far: the diagnostics printed and the two error
  counters. \<^verbatim>\<open>quietExternals\<close> says of the helpers that are not among the sources
  that a call which returns to its caller has reported nothing; it is the hypothesis
  under which \<^verbatim>\<open>DtoCast\<close> as a whole can be shown to return only when no error
  was reported.
\<close>

definition reported :: "IRState \<Rightarrow> (Loc \<times> string) list \<times> nat \<times> nat" where
  "reported s = (diagnostics s, errors s, gaggedErrors s)"

definition quietExternals :: "Externals \<Rightarrow> bool" where
  "quietExternals X =
     ((\<forall>loc t v s r s'. DtoComplex X loc t v s = Returned r s' \<longrightarrow> reported s' = reported s) \<and>
      (\<forall>loc v t s r s'. DtoCastComplex X loc v t s = Returned r s' \<longrightarrow> reported s' = reported s) \<and>
      (\<forall>loc v t s r s'. DtoCastClass X loc v t s = Returned r s' \<longrightarrow> reported s' = reported s) \<and>
      (\<forall>loc v t s r s'. DtoCastArray X loc v t s = Returned r s' \<longrightarrow> reported s' = reported s) \<and>
      (\<forall>loc v t s r s'. DtoPaintType X loc v t s = Returned r s' \<longrightarrow> reported s' = reported s) \<and>
      (\<forall>v s. reported (snd (DtoDelegateEquals X v s)) = reported s) \<and>
      (\<forall>v t a s. reported (snd (DtoAllocaDump X v t a s)) = reported s))"

section \<open>Assignment: \<^verbatim>\<open>DtoAssign\<close>\<close>

text \<open>
  Modelled from the spec: \<^verbatim>\<open>DtoStore\<close>, \<^verbatim>\<open>DtoStoreZextI8\<close> and
  \<^verbatim>\<open>DtoMemCpy\<close> of \<^verbatim>\<open>gen/tollvm.cpp\<close> are not among the sources. Section 4.5
  of the specification: a boolean is extended from one bit on store, a struct is copied
  as raw bytes, everything else is stored directly. So: a store instruction, a store of
  an \<^verbatim>\<open>i1\<close> widened to \<^verbatim>\<open>i8\<close>, and a call of the memory-copy intrinsic over the
  size of the destination's pointee.
\<close>

definition DtoStore :: "LLValue \<Rightarrow> LLValue \<Rightarrow> IRState \<Rightarrow> IRState" where
  "DtoStore v p s = snd (emit Store [v, p] LLVoid s)"

definition DtoStoreZextI8 :: "LLValue \<Rightarrow> LLValue \<Rightarrow> IRState \<Rightarrow> IRState" where
  "DtoStoreZextI8 v p s =
     (case (if llTypeOf v = LLInt 1 then irCreate ZExt [v] (LLInt 8) s else (v, s)) of
        (v1, s1) \<Rightarrow> DtoStore v1 p s1)"

definition DtoMemCpy :: "LLValue \<Rightarrow> LLValue \<Rightarrow> IRState \<Rightarrow> IRState" where
  "DtoMemCpy dst src s = snd (emit MemCpy [dst, src] LLVoid s)"

text \<open>The instructions that change memory.\<close>

fun writesMemory :: "Instr \<Rightarrow> bool" where
  "writesMemory (Instr opc ops t) = (opc = Store \<or> opc = MemCpy)"

text \<open>
  \<^verbatim>\<open>DtoAssign\<close>. In the \<^verbatim>\<open>bool\<close> branch the two operands of the call are
  evaluated right operand first; C++ leaves that order open. A struct type without a
  declaration (\<^verbatim>\<open>sym\<close>) cannot come from the front end and is an assertion failure
  here.
\<close>

definition DtoAssign ::
    "Externals \<Rightarrow> Loc \<Rightarrow> DValue \<Rightarrow> DValue \<Rightarrow> int \<Rightarrow> bool \<Rightarrow> IRState \<Rightarrow> unit outcome" where
  "DtoAssign X loc lhs rhs opc canSkipPostblit s =
     (let t = toBasetype (dtype lhs)
      in if ty t = Tvoid then AssertFailed
         else if ty t = Tbool then
           obind (DtoRVal rhs s) (\<lambda>r s1.
             obind (DtoLVal lhs s1) (\<lambda>l s2. Returned () (DtoStoreZextI8 r l s2)))
         else if ty t = Tstruct then
           (case sym t of
              None \<Rightarrow> AssertFailed
            | Some sd \<Rightarrow>
                if 0 < fields_length sd then
                  obind (DtoLVal rhs s) (\<lambda>src s1.
                    obind (DtoLVal lhs s1) (\<lambda>dst s2.
                      if src \<noteq> dst then Returned () (DtoMemCpy dst src s2)
                      else Returned () s2))
                else Returned () s)
         else if ty t = Tarray \<or> ty t = Tsarray then
           DtoArrayAssign X loc lhs rhs opc canSkipPostblit s
         else if ty t = Tdelegate then
           obind (DtoLVal lhs s) (\<lambda>l s1.
             obind (DtoRVal rhs s1) (\<lambda>r s2. Returned () (DtoStore r l s2)))
         else if ty t = Tclass then
           (if ty (toBasetype (dtype rhs)) \<noteq> Tclass then AssertFailed
            else
              obind (DtoLVal lhs s) (\<lambda>l s1.
                obind (DtoRVal rhs s1) (\<lambda>r s2.
                  obind (lift (DtoBitCast r (pointee (llTypeOf l)) s2)) (\<lambda>r1 s3.
                    Returned () (DtoStore r1 l s3)))))
         else if iscomplex t then
           obind (DtoLVal lhs s) (\<lambda>dst s1.
             obind (DtoCast X loc rhs (dtype lhs) s1) (\<lambda>c s2.
               obind (DtoRVal c s2) (\<lambda>src s3. Returned () (DtoStore src dst s3))))
         else
           obind (DtoLVal lhs s) (\<lambda>l s1.
             obind (DtoRVal rhs s1) (\<lambda>r s2.
               let lit = pointee (llTypeOf l)
               in if llTypeOf r \<noteq> lit then
                    obind (DtoCast X loc rhs (dtype lhs) s2) (\<lambda>c s3.
                      obind (DtoRVal c s3) (\<lambda>r2 s4.
                        obind (lift (if llTypeOf r2 \<noteq> lit then DtoBitCast r2 lit s4 else (r2, s4)))
                          (\<lambda>r3 s5. Returned () (DtoStore r3 l s5))))
                  else Returned () (DtoStore r l s2))))"

section \<open>Global variables: \<^verbatim>\<open>declareGlobal\<close>\<close>

datatype ThreadLocalMode =
    NotThreadLocal
  | GeneralDynamicTLSModel
  | LocalDynamicTLSModel
  | InitialExecTLSModel
  | LocalExecTLSModel

datatype ArchType =
    x86 | x86_64 | arm | aarch64 | mips | ppc | ppc64 | wasm32 | wasm64 | avr | UnknownArch

datatype OSType = Linux | Solaris | NetBSD | FreeBSD | Darwin | Win32 | UnknownOS

record Triple =
  getArch :: ArchType
  getOS :: OSType
  isWindowsMSVCEnvironment :: bool

definition isOSWindows :: "Triple \<Rightarrow> bool" where
  "isOSWindows t = (getOS t = Win32)"

definition isOSDarwin :: "Triple \<Rightarrow> bool" where
  "isOSDarwin t = (getOS t = Darwin)"

datatype LinkageTypes = ExternalLinkage | InternalLinkage

datatype DLLStorageClassTypes = DefaultStorageClass | DLLImportStorageClass | DLLExportStorageClass

record GlobalVariable =
  gv_name :: string
  gv_valueType :: LLType
  gv_isConstant :: bool
  gv_linkage :: LinkageTypes
  gv_initializer :: "LLValue option"
  gv_threadLocalMode :: ThreadLocalMode
  gv_dllStorageClass :: DLLStorageClassTypes

definition gv_isThreadLocal :: "GlobalVariable \<Rightarrow> bool" where
  "gv_isThreadLocal g = (gv_threadLocalMode g \<noteq> NotThreadLocal)"

text \<open>
  The global variables of an \<^verbatim>\<open>llvm::Module\<close>, by name:
  \<^verbatim>\<open>module.getGlobalVariable(mangledName, true)\<close> is the lookup.
\<close>

type_synonym Module = "string \<rightharpoonup> GlobalVariable"

text \<open>
  The command-line option \<^verbatim>\<open>-fthread-model\<close>: the values it recognises, and the
  value it holds after the given occurrences on the command line (none: the initial
  value; several: the last one; an unrecognised value is rejected by the option parser).
\<close>

definition parseThreadModel :: "string \<Rightarrow> ThreadLocalMode option" where
  "parseThreadModel v =
     (if v = ''global-dynamic'' then Some GeneralDynamicTLSModel
      else if v = ''local-dynamic'' then Some LocalDynamicTLSModel
      else if v = ''initial-exec'' then Some InitialExecTLSModel
      else if v = ''local-exec'' then Some LocalExecTLSModel
      else None)"

fun clThreadModel :: "string list \<Rightarrow> ThreadLocalMode option" where
  "clThreadModel [] = Some GeneralDynamicTLSModel"
| "clThreadModel [v] = parseThreadModel v"
| "clThreadModel (v # vs) =
     (case parseThreadModel v of None \<Rightarrow> None | Some m \<Rightarrow> clThreadModel vs)"

definition decimalDigit :: "nat \<Rightarrow> char" where
  "decimalDigit d = char_of (d + 48)"

fun decimal :: "nat \<Rightarrow> string" where
  "decimal n = (if 10 \<le> n then decimal (n div 10) @ [decimalDigit (n mod 10)] else [decimalDigit n])"

text \<open>\<^verbatim>\<open>llvmTypeToString\<close>: the textual form of an IR type.\<close>

fun llvmTypeToString :: "LLType \<Rightarrow> string" and llvmTypesToString :: "LLType list \<Rightarrow> string" where
  "llvmTypeToString LLVoid = ''void''"
| "llvmTypeToString (LLInt n) = ''i'' @ decimal n"
| "llvmTypeToString LLFloat = ''float''"
| "llvmTypeToString LLDouble = ''double''"
| "llvmTypeToString LLReal = ''x86_fp80''"
| "llvmTypeToString (LLPointer t) = llvmTypeToString t @ ''*''"
| "llvmTypeToString (LLStruct []) = ''{}''"
| "llvmTypeToString (LLStruct ts) = ''{ '' @ llvmTypesToString ts @ '' }''"
| "llvmTypeToString (LLArray n t) = ''['' @ decimal n @ '' x '' @ llvmTypeToString t @ '']''"
| "llvmTypeToString (LLVector n t) = ''<'' @ decimal n @ '' x '' @ llvmTypeToString t @ ''>''"
| "llvmTypesToString [] = []"
| "llvmTypesToString [t] = llvmTypeToString t"
| "llvmTypesToString (t # ts) = llvmTypeToString t @ '', '' @ llvmTypesToString ts"

text \<open>
  Modelled from the spec: \<^verbatim>\<open>errorSupplemental\<close> of \<^verbatim>\<open>dmd/errors.d\<close> is not among
  the sources. It adds a line to the preceding diagnostic and, like it, is suppressed
  under gagging (section 7 of the specification).
\<close>

definition errorSupplemental :: "Loc \<Rightarrow> string \<Rightarrow> IRState \<Rightarrow> IRState" where
  "errorSupplemental loc msg s =
     (if gag s = 0 then s\<lparr>diagnostics := diagnostics s @ [(loc, msg)]\<rparr> else s)"

definition suppl :: "Loc \<Rightarrow> string \<Rightarrow> LLType \<Rightarrow> bool \<Rightarrow> bool \<Rightarrow> IRState \<Rightarrow> IRState" where
  "suppl loc prefix type0 isConstant isThreadLocal s =
     errorSupplemental loc
       (prefix @ '' '' @ llvmTypeToString type0 @ '', '' @
        (if isConstant then ''const'' else ''mutable'') @ '', '' @
        (if isThreadLocal then ''thread-local'' else ''non-thread-local'')) s"

text \<open>
  \<^verbatim>\<open>declareGlobal\<close>. The target triple (\<^verbatim>\<open>global.params.targetTriple\<close>) and the
  value of the thread-model option (\<^verbatim>\<open>clThreadModel.getValue()\<close>) are the first two
  arguments; \<open>isThreadLocal0\<close> is the parameter \<^verbatim>\<open>isThreadLocal\<close> as the caller
  passes it, \<open>isThreadLocal\<close> its value after the override for WebAssembly and AVR.
\<close>

definition declareGlobal ::
    "Triple \<Rightarrow> ThreadLocalMode \<Rightarrow> Loc \<Rightarrow> Module \<Rightarrow> LLType \<Rightarrow> string \<Rightarrow> bool \<Rightarrow> bool \<Rightarrow> bool \<Rightarrow>
     IRState \<Rightarrow> (GlobalVariable \<times> Module) outcome" where
  "declareGlobal triple threadModel loc module0 type0 mangledName isConstant isThreadLocal0
       useDLLImport s =
     (let arch = getArch triple;
          isThreadLocal =
            (if arch = wasm32 \<or> arch = wasm64 \<or> arch = avr then False else isThreadLocal0)
      in case module0 mangledName of
           Some existing \<Rightarrow>
             (let existingType = gv_valueType existing
              in if existingType \<noteq> type0 \<or> gv_isConstant existing \<noteq> isConstant \<or>
                    gv_isThreadLocal existing \<noteq> isThreadLocal
                 then Fatal
                   (suppl loc ''New IR type:     '' type0 isConstant isThreadLocal
                     (suppl loc ''Previous IR type:'' existingType (gv_isConstant existing)
                        (gv_isThreadLocal existing)
                       (error loc
                          (''Global variable type does not match previous declaration with '' @
                           ''same mangled name: `'' @ mangledName @ ''`'') s)))
                 else Returned (existing, module0) s)
         | None \<Rightarrow>
             (let tlsModel =
                    (if isThreadLocal
                     then (if arch = ppc then LocalExecTLSModel else threadModel)
                     else NotThreadLocal);
                  gvar = \<lparr>gv_name = mangledName, gv_valueType = type0, gv_isConstant = isConstant,
                          gv_linkage = ExternalLinkage, gv_initializer = None,
                          gv_threadLocalMode = tlsModel,
                          gv_dllStorageClass =
                            (if useDLLImport \<and> isOSWindows triple then DLLImportStorageClass
                             else DefaultStorageClass)\<rparr>
              in Returned (gvar, module0(mangledName \<mapsto> gvar)) s))"

section \<open>The x86 ABI: \<^verbatim>\<open>X86TargetABI\<close>\<close>

datatype LINK = LINK_default | LINK_d | LINK_c | LINK_cpp | LINK_windows | LINK_objc | LINK_system

datatype VarArg = VARARGnone | VARARGvariadic | VARARGtypesafe

text \<open>
  A \<^verbatim>\<open>TypeFunction\<close> as the ABI reads it: \<^verbatim>\<open>isref()\<close>, \<^verbatim>\<open>linkage\<close>,
  \<^verbatim>\<open>parameterList.varargs\<close> and the return type \<^verbatim>\<open>next\<close>.
\<close>

record TypeFunction =
  isref :: bool
  linkage :: LINK
  varargs :: VarArg
  "next" :: Type

datatype LLAttribute = InReg | StructRet | ByVal | NoAlias | NoCapture | Alignment

text \<open>The two rewrites an \<^verbatim>\<open>X86TargetABI\<close> owns; an argument points at one or none.\<close>

datatype ABIRewrite = IntegerRewrite | IndirectByvalRewrite

record IrFuncTyArg =
  atype :: Type
  ltype :: LLType
  attrs :: "LLAttribute set"
  byref :: bool
  rewrite :: "ABIRewrite option"

record IrFuncTy =
  ftype :: TypeFunction
  ret :: IrFuncTyArg
  arg_sret :: "IrFuncTyArg option"
  arg_this :: "IrFuncTyArg option"
  arg_nest :: "IrFuncTyArg option"
  args :: "IrFuncTyArg list"

record X86TargetABI =
  isDarwin :: bool
  isMSVC :: bool
  returnStructsInRegs :: bool

text \<open>The constructor \<^verbatim>\<open>X86TargetABI()\<close>.\<close>

definition X86TargetABI_new :: "Triple \<Rightarrow> X86TargetABI" where
  "X86TargetABI_new triple =
     \<lparr>isDarwin = isOSDarwin triple,
      isMSVC = isWindowsMSVCEnvironment triple,
      returnStructsInRegs =
        (\<not> (getOS triple = Linux \<or> getOS triple = Solaris \<or> getOS triple = NetBSD))\<rparr>"

text \<open>
  Modelled from the spec: the helpers of the base class \<^verbatim>\<open>TargetABI\<close>
  (\<^verbatim>\<open>gen/abi.cpp\<close>), the two rewrites (\<^verbatim>\<open>gen/abi-generic.h\<close>) and
  \<^verbatim>\<open>IrFuncTyArg::isByVal\<close> (\<^verbatim>\<open>ir/irfuncty.cpp\<close>) are not among the sources.
  Section 4.4 and the glossary of the specification: the declared linkage is either the
  source language's own or an interop one; an aggregate fits the register-return rules
  when it is trivially copyable and its size is a power of two within a small threshold
  (the comment in \<^verbatim>\<open>returnInArg\<close> gives the threshold: at most 8 bytes); the integer
  rewrite reinterprets an aggregate as an equivalently-sized integer; the by-value
  rewrite passes the address of a caller-owned copy.
\<close>

definition isExternD :: "TypeFunction \<Rightarrow> bool" where
  "isExternD tf = (linkage tf = LINK_d \<and> varargs tf \<noteq> VARARGvariadic)"

definition isAggregate :: "Type \<Rightarrow> bool" where
  "isAggregate t =
     (ty (toBasetype t) = Tstruct \<or> ty (toBasetype t) = Tsarray \<or>
      ty (toBasetype t) = Tdelegate \<or> iscomplex t)"

fun baseElemOf :: "Type \<Rightarrow> Type" where
  "baseElemOf (Type nm k sz ii iu fl cx ct nx bt sy) =
     (case bt of
        Some b \<Rightarrow> baseElemOf b
      | None \<Rightarrow>
          (if k = Tsarray
           then (case nx of Some e \<Rightarrow> baseElemOf e
                          | None \<Rightarrow> Type nm k sz ii iu fl cx ct nx bt sy)
           else Type nm k sz ii iu fl cx ct nx bt sy))"

definition isPOD :: "Type \<Rightarrow> bool \<Rightarrow> bool" where
  "isPOD t excludeStructsWithCtor =
     (let b = baseElemOf t
      in if ty b \<noteq> Tstruct then True
         else (case sym b of
                 None \<Rightarrow> False
               | Some sd \<Rightarrow> sd_isPOD sd \<and> \<not> (excludeStructsWithCtor \<and> sd_ctor sd)))"

definition canRewriteAsInt :: "Type \<Rightarrow> bool" where
  "canRewriteAsInt t =
     (size' (toBasetype t) = 1 \<or> size' (toBasetype t) = 2 \<or>
      size' (toBasetype t) = 4 \<or> size' (toBasetype t) = 8)"

definition skipReturnValueRewrite :: "IrFuncTy \<Rightarrow> bool" where
  "skipReturnValueRewrite fty =
     (byref (ret fty) \<or> ty (toBasetype (atype (ret fty))) = Tvoid \<or>
      ty (toBasetype (atype (ret fty))) = Tnoreturn)"

definition isByVal :: "IrFuncTyArg \<Rightarrow> bool" where
  "isByVal arg = (ByVal \<in> attrs arg)"

definition integerRewrite_applyTo :: "IrFuncTyArg \<Rightarrow> IrFuncTyArg" where
  "integerRewrite_applyTo arg =
     arg\<lparr>rewrite := Some IntegerRewrite, ltype := LLInt (8 * size' (atype arg))\<rparr>"

definition integerRewrite_applyToIfNotObsolete :: "IrFuncTyArg \<Rightarrow> IrFuncTyArg" where
  "integerRewrite_applyToIfNotObsolete arg =
     (if ltype arg = LLInt (8 * size' (atype arg)) then arg else integerRewrite_applyTo arg)"

definition indirectByvalRewrite_applyTo :: "IrFuncTyArg \<Rightarrow> IrFuncTyArg" where
  "indirectByvalRewrite_applyTo arg =
     arg\<lparr>rewrite := Some IndirectByvalRewrite, ltype := LLPointer (DtoType (atype arg)),
         attrs := {NoAlias, NoCapture, Alignment}\<rparr>"

text \<open>
  The basic complex types \<^verbatim>\<open>Type::tcomplex32\<close>, \<^verbatim>\<open>Type::tcomplex64\<close> and
  \<^verbatim>\<open>Type::tcomplex80\<close> of the front end, as they are on 32-bit x86.
\<close>

definition tcomplex32 :: Type where
  "tcomplex32 = Type ''cfloat'' Tcomplex32 8 False False True True
                  (LLStruct [LLFloat, LLFloat]) None None None"

definition tcomplex64 :: Type where
  "tcomplex64 = Type ''cdouble'' Tcomplex64 16 False False True True
                  (LLStruct [LLDouble, LLDouble]) None None None"

definition tcomplex80 :: Type where
  "tcomplex80 = Type ''creal'' Tcomplex80 24 False False True True
                  (LLStruct [LLReal, LLReal]) None None None"

text \<open>
  \<^verbatim>\<open>getExtraLoweredReturnType\<close>. The identifier of an enum's symbol is what
  \<^verbatim>\<open>toChars\<close> of the enum type prints.
\<close>

definition getExtraLoweredReturnType :: "TypeFunction \<Rightarrow> Type" where
  "getExtraLoweredReturnType tf =
     (let rt = next tf
      in if ty rt = Tenum \<and> toChars rt = ''__c_complex_float'' then tcomplex32
         else if ty rt = Tenum \<and> toChars rt = ''__c_complex_double'' then tcomplex64
         else if ty rt = Tenum \<and> toChars rt = ''__c_complex_real'' then tcomplex80
         else toBasetype rt)"


definition addAttribute :: "LLAttribute \<Rightarrow> IrFuncTyArg \<Rightarrow> IrFuncTyArg" where
  "addAttribute a arg = arg\<lparr>attrs := insert a (attrs arg)\<rparr>"

definition removeAttribute :: "LLAttribute \<Rightarrow> IrFuncTyArg \<Rightarrow> IrFuncTyArg" where
  "removeAttribute a arg = arg\<lparr>attrs := attrs arg - {a}\<rparr>"

text \<open>\<^verbatim>\<open>workaroundIssue1356\<close>: no alignment attribute on by-value arguments for MSVC.\<close>

definition workaroundIssue1356 :: "X86TargetABI \<Rightarrow> IrFuncTyArg list \<Rightarrow> IrFuncTyArg list" where
  "workaroundIssue1356 abi as =
     (if isMSVC abi
      then map (\<lambda>arg. if isByVal arg then removeAttribute Alignment arg else arg) as
      else as)"

text \<open>The closing loop of \<^verbatim>\<open>rewriteFunctionType\<close>: erase the empty structs.\<close>

fun eraseEmptyStructs :: "IrFuncTyArg list \<Rightarrow> IrFuncTyArg list" where
  "eraseEmptyStructs [] = []"
| "eraseEmptyStructs (arg # as) =
     (if ty (toBasetype (atype arg)) = Tstruct \<and>
         (case sym (toBasetype (atype arg)) of Some sd \<Rightarrow> fields_length sd = 0 | None \<Rightarrow> False)
      then eraseEmptyStructs as
      else arg # eraseEmptyStructs as)"

text \<open>The part of \<^verbatim>\<open>rewriteFunctionType\<close> that treats the last explicit argument.\<close>

definition rewriteLastArg :: "IrFuncTyArg \<Rightarrow> IrFuncTyArg" where
  "rewriteLastArg lastArg =
     (if rewrite lastArg = Some IndirectByvalRewrite \<or> (byref lastArg \<and> \<not> isByVal lastArg)
      then addAttribute InReg lastArg
      else
        let lastTy = toBasetype (atype lastArg);
            sz = size' lastTy
        in if \<not> isfloating lastTy \<and> (sz = 1 \<or> sz = 2 \<or> sz = 4) then
             addAttribute InReg
               (if ty lastTy = Tstruct \<or> ty lastTy = Tsarray
                then (integerRewrite_applyTo lastArg)\<lparr>byref := False, attrs := {}\<rparr>
                else lastArg)
           else lastArg)"

text \<open>
  \<^verbatim>\<open>rewriteFunctionType\<close>, in the four stages its comments name: the return value,
  the non-POD arguments, the argument passed in \<^verbatim>\<open>EAX\<close> for \<^verbatim>\<open>extern(D)\<close>, and
  the two target exceptions at the end.
\<close>

definition rewriteReturnValue :: "IrFuncTy \<Rightarrow> IrFuncTy" where
  "rewriteReturnValue fty =
     (if \<not> skipReturnValueRewrite fty then
        (let rt = getExtraLoweredReturnType (ftype fty)
         in if isAggregate rt \<and> canRewriteAsInt rt \<and>
               \<not> (isExternD (ftype fty) \<and> ty rt = Tcomplex32)
            then fty\<lparr>ret := integerRewrite_applyToIfNotObsolete (ret fty)\<rparr>
            else fty)
      else fty)"

definition rewriteNonPODArgs :: "X86TargetABI \<Rightarrow> IrFuncTy \<Rightarrow> IrFuncTy" where
  "rewriteNonPODArgs abi fty =
     (let isMSVCpp = (isMSVC abi \<and> linkage (ftype fty) = LINK_cpp)
      in if \<not> isMSVCpp then
           fty\<lparr>args := map (\<lambda>arg. if \<not> byref arg \<and> \<not> isPOD (atype arg) False
                                  then indirectByvalRewrite_applyTo arg else arg)
                           (args fty)\<rparr>
         else fty)"

definition passInEAX :: "IrFuncTy \<Rightarrow> IrFuncTy" where
  "passInEAX fty =
     (case arg_this fty of
        Some this \<Rightarrow> fty\<lparr>arg_this := Some (addAttribute InReg this)\<rparr>
      | None \<Rightarrow>
         (case arg_nest fty of
            Some nest \<Rightarrow> fty\<lparr>arg_nest := Some (addAttribute InReg nest)\<rparr>
          | None \<Rightarrow>
             (case arg_sret fty of
                Some sret \<Rightarrow>
                  fty\<lparr>arg_sret := Some (addAttribute InReg (removeAttribute StructRet sret))\<rparr>
              | None \<Rightarrow>
                  (if args fty \<noteq> []
                   then fty\<lparr>args := butlast (args fty) @ [rewriteLastArg (last (args fty))]\<rparr>
                   else fty))))"

definition targetExceptions :: "X86TargetABI \<Rightarrow> IrFuncTy \<Rightarrow> IrFuncTy" where
  "targetExceptions abi fty =
     (let fty4 = fty\<lparr>args := workaroundIssue1356 abi (args fty)\<rparr>
      in if isExternD (ftype fty) \<or> \<not> isDarwin abi then fty4
         else fty4\<lparr>args := eraseEmptyStructs (args fty4)\<rparr>)"

definition rewriteFunctionType :: "X86TargetABI \<Rightarrow> IrFuncTy \<Rightarrow> IrFuncTy" where
  "rewriteFunctionType abi fty =
     (let externD = isExternD (ftype fty);
          fty2 = rewriteNonPODArgs abi (rewriteReturnValue fty);
          fty3 = (if externD then passInEAX fty2 else fty2)
      in targetExceptions abi fty3)"

text \<open>
  The bodies of the two loops over the argument list, one argument at a time: the by-value
  rewrite of a non-POD argument and the removal of the alignment attribute.
\<close>

definition byvalStep :: "IrFuncTyArg \<Rightarrow> IrFuncTyArg" where
  "byvalStep arg =
     (if \<not> byref arg \<and> \<not> isPOD (atype arg) False then indirectByvalRewrite_applyTo arg else arg)"

definition alignStep :: "X86TargetABI \<Rightarrow> IrFuncTyArg \<Rightarrow> IrFuncTyArg" where
  "alignStep abi arg = (if isMSVC abi \<and> isByVal arg then removeAttribute Alignment arg else arg)"

section \<open>Constant folding: \<^verbatim>\<open>toConstElem\<close> and \<^verbatim>\<open>tryToConstElem\<close>\<close>

text \<open>
  The declarations a \<^verbatim>\<open>VarExp\<close> can name, as \<^verbatim>\<open>visit(VarExp *)\<close> tells them
  apart: the init symbol of an aggregate (with the type of the symbol and the default
  initialiser of the aggregate), a \<^verbatim>\<open>TypeInfo\<close> declaration (with the constant
  \<^verbatim>\<open>DtoTypeInfoOf\<close> resolves it to), a variable (\<^verbatim>\<open>isConst()\<close>, \<^verbatim>\<open>_init\<close>,
  \<^verbatim>\<open>inuse\<close>), or anything else. An initialiser is opaque to the visitor.
\<close>

datatype Initializer = Initializer nat

datatype Declaration =
    SymbolDeclaration Type LLValue
  | TypeInfoDeclaration LLValue
  | VarDeclaration bool "Initializer option" nat
  | OtherDeclaration

text \<open>
  The expressions of the model, each with \<^verbatim>\<open>loc\<close>, \<^verbatim>\<open>type\<close> and the text
  \<^verbatim>\<open>toChars()\<close> prints. \<^verbatim>\<open>OtherExp\<close> stands for every kind of expression for
  which \<^verbatim>\<open>ToConstElemVisitor\<close> has no override, so that the visit lands in
  \<^verbatim>\<open>visit(Expression *)\<close>. The visitor's overrides for string, cast, symbol-offset,
  address, function, array, struct, class-reference, vector, real, complex and
  \<^verbatim>\<open>typeid\<close> expressions are outside the model.
\<close>

datatype Expression =
    VarExp Loc Type string Declaration
  | IntegerExp Loc Type string nat
  | NullExp Loc Type string
  | AddExp Loc Type string Expression Expression
  | MinExp Loc Type string Expression Expression
  | OtherExp Loc Type string

fun etype :: "Expression \<Rightarrow> Type" where
  "etype (VarExp l t c d) = t"
| "etype (IntegerExp l t c n) = t"
| "etype (NullExp l t c) = t"
| "etype (AddExp l t c e1 e2) = t"
| "etype (MinExp l t c e1 e2) = t"
| "etype (OtherExp l t c) = t"

text \<open>
  What the visitor calls outside the two source files: \<^verbatim>\<open>DtoConstInitializer\<close>
  (which may return null, terminate or fold an expression in turn), the front end's
  \<^verbatim>\<open>toInteger()\<close> and \<^verbatim>\<open>undoStrideMul\<close> of \<^verbatim>\<open>gen/binops.cpp\<close>. Parameters
  again.
\<close>

record FoldExternals =
  DtoConstInitializer :: "Loc \<Rightarrow> Type \<Rightarrow> Initializer \<Rightarrow> IRState \<Rightarrow> LLValue option outcome"
  toInteger :: "Expression \<Rightarrow> nat"
  undoStrideMul :: "Loc \<Rightarrow> Type \<Rightarrow> nat \<Rightarrow> nat"

text \<open>
  \<^verbatim>\<open>fatalError\<close>: the result is null, and the compilation ends unless errors are
  gagged.
\<close>

definition fatalError :: "IRState \<Rightarrow> LLValue option outcome" where
  "fatalError s = (if gag s = 0 then Fatal s else Returned None s)"

text \<open>
  The last step of \<^verbatim>\<open>toConstElem\<close>: a null result of the visitor becomes an
  undefined value of the expression's type ("error case; never return null").
\<close>

definition undefIfNull :: "Type \<Rightarrow> LLValue option outcome \<Rightarrow> LLValue option outcome" where
  "undefIfNull t r =
     (case r of
        Returned ce s \<Rightarrow> Returned (if ce = None then Some (UndefValue (DtoType t)) else ce) s
      | Fatal s \<Rightarrow> Fatal s
      | AssertFailed \<Rightarrow> AssertFailed)"

definition isaPointer :: "LLType \<Rightarrow> bool" where
  "isaPointer t = (case t of LLPointer e \<Rightarrow> True | _ \<Rightarrow> False)"

definition isaInteger :: "LLType \<Rightarrow> bool" where
  "isaInteger t = (case t of LLInt w \<Rightarrow> True | _ \<Rightarrow> False)"

definition isaStruct :: "LLType \<Rightarrow> bool" where
  "isaStruct t = (case t of LLStruct ts \<Rightarrow> True | _ \<Rightarrow> False)"

definition intWidth :: "LLType \<Rightarrow> nat" where
  "intWidth t = (case t of LLInt w \<Rightarrow> w | _ \<Rightarrow> 0)"

definition not_constant_msg :: "string \<Rightarrow> string" where
  "not_constant_msg c = ''expression `'' @ c @ ''` is not a constant''"

definition non_constant_expression_msg :: "string \<Rightarrow> string" where
  "non_constant_expression_msg c = ''non-constant expression `'' @ c @ ''`''"

text \<open>
  \<^verbatim>\<open>ToConstElemVisitor::process\<close> with the \<^verbatim>\<open>visit\<close> overloads it dispatches to.
  Where \<^verbatim>\<open>visit(AddExp *)\<close> and \<^verbatim>\<open>visit(MinExp *)\<close> call \<^verbatim>\<open>toConstElem\<close> on the
  left operand, the model runs the visitor on it and applies \<^verbatim>\<open>undefIfNull\<close>, which
  is what \<^verbatim>\<open>toConstElem\<close> does.
\<close>

fun process :: "FoldExternals \<Rightarrow> Expression \<Rightarrow> IRState \<Rightarrow> LLValue option outcome" where
  "process X (VarExp l t c d) s =
     (case d of
        SymbolDeclaration st dflt \<Rightarrow>
          (if ty (toBasetype st) = Tstruct then Returned (Some dflt) s
           else Returned None (error l (non_constant_expression_msg c) s))
      | TypeInfoDeclaration ti \<Rightarrow>
          (case DtoBitCast ti (DtoType t) s of (r, s1) \<Rightarrow> Returned (Some r) s1)
      | VarDeclaration isConst init inuse \<Rightarrow>
          (case init of
             Some i \<Rightarrow>
               (if isConst then
                  (if inuse \<noteq> 0
                   then Returned None (error l (''recursive reference `'' @ c @ ''`'') s)
                   else DtoConstInitializer X l t i s)
                else Returned None (error l (non_constant_expression_msg c) s))
           | None \<Rightarrow> Returned None (error l (non_constant_expression_msg c) s))
      | OtherDeclaration \<Rightarrow> Returned None (error l (non_constant_expression_msg c) s))"
| "process X (IntegerExp l t c n) s =
     (let lt = DtoType t
      in if isaPointer lt then
           Returned (Some (ConstantExpr IntToPtr
                             [ConstantInt (DtoSize_t s) (n mod 2 ^ pointerBits s)] lt)) s
         else if \<not> isaInteger lt then AssertFailed
         else Returned (Some (ConstantInt lt (n mod 2 ^ intWidth lt))) s)"
| "process X (NullExp l t c) s =
     (let lt = DtoType t
      in if ty t = Tarray then
           (if isaStruct lt then Returned (Some (ConstantNull lt)) s else AssertFailed)
         else Returned (Some (ConstantNull lt)) s)"
| "process X (AddExp l t c e1 e2) s =
     (let t1b = toBasetype (etype e1)
      in if ty t1b = Tpointer \<and> isintegral (etype e2) then
           (case undefIfNull (etype e1) (process X e1 s) of
              Returned ptr s1 \<Rightarrow>
                (case ptr of
                   None \<Rightarrow> AssertFailed
                 | Some p \<Rightarrow>
                     Returned (Some (ConstantExpr GetElementPtr
                        [p, DtoConstSize_t (undoStrideMul X l t1b (toInteger X e2)) s1]
                        (llTypeOf p))) s1)
            | Fatal s1 \<Rightarrow> Fatal s1
            | AssertFailed \<Rightarrow> AssertFailed)
         else fatalError (error l (not_constant_msg c) s))"
| "process X (MinExp l t c e1 e2) s =
     (let t1b = toBasetype (etype e1)
      in if ty t1b = Tpointer \<and> isintegral (etype e2) then
           (case undefIfNull (etype e1) (process X e1 s) of
              Returned ptr s1 \<Rightarrow>
                (case ptr of
                   None \<Rightarrow> AssertFailed
                 | Some p \<Rightarrow>
                     Returned (Some (ConstantExpr GetElementPtr
                        [p, ConstantExpr Neg
                              [DtoConstSize_t (undoStrideMul X l t1b (toInteger X e2)) s1]
                              (DtoSize_t s1)]
                        (llTypeOf p))) s1)
            | Fatal s1 \<Rightarrow> Fatal s1
            | AssertFailed \<Rightarrow> AssertFailed)
         else fatalError (error l (not_constant_msg c) s))"
| "process X (OtherExp l t c) s = fatalError (error l (not_constant_msg c) s)"

definition toConstElem :: "FoldExternals \<Rightarrow> Expression \<Rightarrow> IRState \<Rightarrow> LLValue option outcome" where
  "toConstElem X e s = undefIfNull (etype e) (process X e s)"

text \<open>
  Modelled from the spec: \<^verbatim>\<open>global.startGagging()\<close> and \<^verbatim>\<open>global.endGagging()\<close>
  of \<^verbatim>\<open>dmd/globals.d\<close> are not among the sources. Sections 4.3 and 7 of the
  specification: the try entry point gags diagnostics, and the errors of the gagged
  stretch are converted into a boolean failure signal, through the side-channel gag
  counter. Starting remembers the count of gagged errors and raises the gag depth; ending
  lowers the depth again, tells whether the count moved, and restores it.
\<close>

definition startGagging :: "IRState \<Rightarrow> nat \<times> IRState" where
  "startGagging s = (gaggedErrors s, s\<lparr>gag := gag s + 1\<rparr>)"

definition endGagging :: "nat \<Rightarrow> IRState \<Rightarrow> bool \<times> IRState" where
  "endGagging oldGagged s =
     (gaggedErrors s \<noteq> oldGagged, s\<lparr>gag := gag s - 1, gaggedErrors := oldGagged\<rparr>)"

definition tryToConstElem :: "FoldExternals \<Rightarrow> Expression \<Rightarrow> IRState \<Rightarrow> LLValue option outcome" where
  "tryToConstElem X e s =
     (case startGagging s of
        (errs, s1) \<Rightarrow>
          (case process X e s1 of
             Returned ce s2 \<Rightarrow>
               (case endGagging errs s2 of
                  (anyErrs, s3) \<Rightarrow>
                    if anyErrs then Returned None s3
                    else if ce = None then AssertFailed
                    else Returned ce s3)
           | Fatal s2 \<Rightarrow> Fatal s2
           | AssertFailed \<Rightarrow> AssertFailed))"

section \<open>What the emitted integer conversions compute\<close>

text \<open>
  The meaning of the three integer conversion instructions on bit patterns, to read off
  the run-time result of a cast. A value of type \<^verbatim>\<open>iN\<close> is the natural number of
  its \<open>N\<close> bits. \<^verbatim>\<open>zext\<close> keeps the bits, \<^verbatim>\<open>sext\<close> copies the top bit of the
  source into the new high bits, \<^verbatim>\<open>trunc\<close> keeps the low bits.
\<close>

definition zext_bits :: "nat \<Rightarrow> nat \<Rightarrow> nat" where
  "zext_bits w v = v mod 2 ^ w"

definition sext_bits :: "nat \<Rightarrow> nat \<Rightarrow> nat \<Rightarrow> nat" where
  "sext_bits w w' v =
     (let x = v mod 2 ^ w
      in if 0 < w \<and> 2 ^ (w - 1) \<le> x then x + (2 ^ w' - 2 ^ w) else x)"

text \<open>The two's-complement reading of the \<open>w\<close> bits \<open>v\<close>.\<close>

definition signedVal :: "nat \<Rightarrow> nat \<Rightarrow> int" where
  "signedVal w v = (if 0 < w \<and> 2 ^ (w - 1) \<le> v then int v - 2 ^ w else int v)"

fun operandVal :: "nat option list \<Rightarrow> LLValue \<Rightarrow> nat option" where
  "operandVal env (ConstantInt (LLInt w) n) = Some (n mod 2 ^ w)"
| "operandVal env (InstResult k t) = (if k < length env then env ! k else None)"
| "operandVal env v = None"

fun evalInstr :: "nat option list \<Rightarrow> Instr \<Rightarrow> nat option" where
  "evalInstr env (Instr opc [x] (LLInt w')) =
     (case (llTypeOf x, operandVal env x) of
        (LLInt w, Some v) \<Rightarrow>
          (if opc = ZExt then Some (zext_bits w v)
           else if opc = SExt then Some (sext_bits w w' v)
           else if opc = Trunc then Some (v mod 2 ^ w')
           else None)
      | _ \<Rightarrow> None)"
| "evalInstr env i = None"

definition runInsts :: "Instr list \<Rightarrow> nat option list" where
  "runInsts is = foldl (\<lambda>env i. env @ [evalInstr env i]) [] is"

definition valueOf :: "IRState \<Rightarrow> LLValue \<Rightarrow> nat option" where
  "valueOf s v = operandVal (runInsts (insts s)) v"

section \<open>Concrete inputs\<close>

text \<open>
  Some types of the source language as the front end describes them on a 32-bit x86
  target, an empty build context, and an instance of the external helpers for examples
  that never reach them.
\<close>

definition tint32 :: Type where
  "tint32 = Type ''int'' Tint32 4 True False False False (LLInt 32) None None None"

definition tint64 :: Type where
  "tint64 = Type ''long'' Tint64 8 True False False False (LLInt 64) None None None"

definition tuns16 :: Type where
  "tuns16 = Type ''ushort'' Tuns16 2 True True False False (LLInt 16) None None None"

definition tbool :: Type where
  "tbool = Type ''bool'' Tbool 1 True True False False (LLInt 1) None None None"

definition tvoid :: Type where
  "tvoid = Type ''void'' Tvoid 1 False False False False LLVoid None None None"

definition tint_slice :: Type where
  "tint_slice = Type ''int[]'' Tarray 8 False False False False
                  (LLStruct [LLInt 32, LLPointer (LLInt 32)]) (Some tint32) None None"

definition taarray :: Type where
  "taarray = Type ''int[string]'' Taarray 4 False False False False
               (LLPointer (LLInt 8)) (Some tint32) None None"

definition tstructS :: Type where
  "tstructS = Type ''S'' Tstruct 4 False False False False (LLStruct [LLInt 32]) None None
                (Some (StructDeclaration 1 True False))"

definition tvoidptr :: Type where
  "tvoidptr = Type ''void*'' Tpointer 4 False False False False (LLPointer (LLInt 8))
                (Some tvoid) None None"

definition tfloat32 :: Type where
  "tfloat32 = Type ''float'' Tfloat32 4 False False True False LLFloat None None None"

definition tdelegate :: Type where
  "tdelegate = Type ''void delegate()'' Tdelegate 8 False False False False
                 (LLStruct [LLPointer (LLInt 8), LLPointer (LLInt 8)]) None None None"

definition tint4 :: Type where
  "tint4 = Type ''__vector(int[4])'' Tvector 16 True False False False
             (LLVector 4 (LLInt 32)) None None None"

definition tstructEmpty :: Type where
  "tstructEmpty = Type ''E'' Tstruct 1 False False False False (LLStruct []) None None
                    (Some (StructDeclaration 0 True False))"

definition tstruct3 :: Type where
  "tstruct3 = Type ''T3'' Tstruct 3 False False False False (LLStruct [LLInt 8, LLInt 8, LLInt 8])
                None None (Some (StructDeclaration 3 True False))"

definition gvar_x :: GlobalVariable where
  "gvar_x = \<lparr>gv_name = ''x'', gv_valueType = LLInt 32, gv_isConstant = False,
             gv_linkage = ExternalLinkage, gv_initializer = None,
             gv_threadLocalMode = NotThreadLocal, gv_dllStorageClass = DefaultStorageClass\<rparr>"

definition triple_of :: "ArchType \<Rightarrow> OSType \<Rightarrow> Triple" where
  "triple_of a os = \<lparr>getArch = a, getOS = os, isWindowsMSVCEnvironment = False\<rparr>"

definition F0 :: FoldExternals where
  "F0 = \<lparr>DtoConstInitializer = (\<lambda>loc t i s. AssertFailed),
         toInteger = (\<lambda>e. 0),
         undoStrideMul = (\<lambda>loc t n. n)\<rparr>"

definition tf_of :: "LINK \<Rightarrow> Type \<Rightarrow> TypeFunction" where
  "tf_of l rt = \<lparr>isref = False, linkage = l, varargs = VARARGnone, next = rt\<rparr>"

definition arg_of :: "Type \<Rightarrow> IrFuncTyArg" where
  "arg_of t = \<lparr>atype = t, ltype = DtoType t, attrs = {}, byref = False, rewrite = None\<rparr>"

definition fty_of :: "LINK \<Rightarrow> Type \<Rightarrow> Type list \<Rightarrow> IrFuncTy" where
  "fty_of l rt ts =
     \<lparr>ftype = tf_of l rt, ret = arg_of rt, arg_sret = None, arg_this = None, arg_nest = None,
      args = map arg_of ts\<rparr>"

definition loc0 :: Loc where
  "loc0 = (''app.d'', 1)"

definition s0 :: IRState where
  "s0 = \<lparr>insts = [], diagnostics = [], errors = 0, gaggedErrors = 0, gag = 0, pointerBits = 32\<rparr>"

definition X0 :: Externals where
  "X0 = \<lparr>DtoComplex = (\<lambda>loc t v s. AssertFailed),
         DtoCastComplex = (\<lambda>loc v t s. AssertFailed),
         DtoCastClass = (\<lambda>loc v t s. AssertFailed),
         DtoCastArray = (\<lambda>loc v t s. AssertFailed),
         DtoPaintType = (\<lambda>loc v t s. AssertFailed),
         DtoDelegateEquals = (\<lambda>v s. (v, s)),
         DtoAllocaDump = (\<lambda>v t a s. (v, s)),
         DtoAlignment = (\<lambda>t. 0),
         DtoArrayAssign = (\<lambda>loc l r opc c s. AssertFailed)\<rparr>"

section \<open>Properties\<close>

subsection \<open>Null materialisation\<close>

text \<open>
  Claim C10. For every type handed to \<^verbatim>\<open>DtoNullValue\<close>, with \<open>b\<close> its base type:
  a complex type yields an immediate whose two components are the zero constant of the
  complex type's floating-point component type; otherwise an integral, floating,
  pointer, null, class, delegate or associative-array type yields the null value holding
  the all-zero constant of the lowered base type; otherwise a dynamic array yields a
  slice value made of the length constant 0 and a null pointer to the element type (two
  separate components, not one zero aggregate); and every other type reports the error
  \<^verbatim>\<open>`null` not known for type\<close> and terminates the compilation. No branch that
  returns emits an instruction.
\<close>

theorem DtoNullValue_by_category:
  "(iscomplex (toBasetype t) \<and> DtoComplexBaseType (toBasetype t) = Some fp \<longrightarrow>
      (\<exists>res. DtoNullValue t loc s = Returned (DImValue t res) s \<and>
             aggrElem res 0 = Some (ConstantNull fp) \<and>
             aggrElem res 1 = Some (ConstantNull fp)))
   \<and>
   (\<not> iscomplex (toBasetype t) \<and>
      (isintegral (toBasetype t) \<or> isfloating (toBasetype t) \<or>
       ty (toBasetype t) \<in> {Tpointer, Tnull, Tclass, Tdelegate, Taarray}) \<longrightarrow>
      DtoNullValue t loc s =
        Returned (DNullValue t (ConstantNull (DtoType (toBasetype t)))) s)
   \<and>
   (\<not> iscomplex (toBasetype t) \<and> \<not> isintegral (toBasetype t) \<and>
    \<not> isfloating (toBasetype t) \<and> ty (toBasetype t) = Tarray \<and>
    nextOf (toBasetype t) = Some elem \<longrightarrow>
      DtoNullValue t loc s =
        Returned (DSliceValue t (ConstantInt (LLInt (pointerBits s)) 0)
                                (ConstantNull (LLPointer (DtoMemType elem)))) s)
   \<and>
   (\<not> iscomplex (toBasetype t) \<and> \<not> isintegral (toBasetype t) \<and>
    \<not> isfloating (toBasetype t) \<and>
    ty (toBasetype t) \<notin> {Tpointer, Tnull, Tclass, Tdelegate, Taarray, Tarray} \<longrightarrow>
      DtoNullValue t loc s =
        Fatal (error loc (''`null` not known for type `'' @ toChars t @ ''`'') s))"
proof (intro conjI impI)
  assume c: "iscomplex (toBasetype t) \<and> DtoComplexBaseType (toBasetype t) = Some fp"
  let ?res = "ConstantExpr InsertValue
      [ConstantExpr InsertValue
         [UndefValue (DtoType t), ConstantNull fp, ConstantInt (LLInt 32) 0] (DtoType t),
       ConstantNull fp, ConstantInt (LLInt 32) 1] (DtoType t)"
  have pair: "DtoAggrPair (DtoType t) (ConstantNull fp) (ConstantNull fp) s = (?res, s)"
    by (simp add: DtoAggrPair_def irCreate_def)
  have "DtoNullValue t loc s = Returned (DImValue t ?res) s"
    using c pair unfolding DtoNullValue_def Let_def by simp
  moreover have "aggrElem ?res 0 = Some (ConstantNull fp)" by simp
  moreover have "aggrElem ?res 1 = Some (ConstantNull fp)" by simp
  ultimately show "\<exists>res. DtoNullValue t loc s = Returned (DImValue t res) s \<and>
      aggrElem res 0 = Some (ConstantNull fp) \<and> aggrElem res 1 = Some (ConstantNull fp)"
    by blast
next
  assume "\<not> iscomplex (toBasetype t) \<and>
      (isintegral (toBasetype t) \<or> isfloating (toBasetype t) \<or>
       ty (toBasetype t) \<in> {Tpointer, Tnull, Tclass, Tdelegate, Taarray})"
  then show "DtoNullValue t loc s =
      Returned (DNullValue t (ConstantNull (DtoType (toBasetype t)))) s"
    unfolding DtoNullValue_def Let_def by auto
next
  assume "\<not> iscomplex (toBasetype t) \<and> \<not> isintegral (toBasetype t) \<and>
    \<not> isfloating (toBasetype t) \<and> ty (toBasetype t) = Tarray \<and>
    nextOf (toBasetype t) = Some elem"
  then show "DtoNullValue t loc s =
      Returned (DSliceValue t (ConstantInt (LLInt (pointerBits s)) 0)
                              (ConstantNull (LLPointer (DtoMemType elem)))) s"
    unfolding DtoNullValue_def Let_def
    by (simp add: DtoConstSize_t_def DtoSize_t_def getNullPtr_def DtoPtrToType_def)
next
  assume "\<not> iscomplex (toBasetype t) \<and> \<not> isintegral (toBasetype t) \<and>
    \<not> isfloating (toBasetype t) \<and>
    ty (toBasetype t) \<notin> {Tpointer, Tnull, Tclass, Tdelegate, Taarray, Tarray}"
  then show "DtoNullValue t loc s =
      Fatal (error loc (''`null` not known for type `'' @ toChars t @ ''`'') s)"
    unfolding DtoNullValue_def Let_def by simp
qed

theorem DtoNullValue_by_category_witness:
  "(\<exists>res. DtoNullValue tcomplex32 loc0 s0 = Returned (DImValue tcomplex32 res) s0 \<and>
          aggrElem res 0 = Some (ConstantNull LLFloat) \<and>
          aggrElem res 1 = Some (ConstantNull LLFloat)) \<and>
   DtoNullValue tint32 loc0 s0 = Returned (DNullValue tint32 (ConstantNull (LLInt 32))) s0 \<and>
   DtoNullValue taarray loc0 s0 =
     Returned (DNullValue taarray (ConstantNull (LLPointer (LLInt 8)))) s0 \<and>
   DtoNullValue tint_slice loc0 s0 =
     Returned (DSliceValue tint_slice (ConstantInt (LLInt 32) 0)
                                      (ConstantNull (LLPointer (LLInt 32)))) s0 \<and>
   DtoNullValue tvoid loc0 s0 =
     Fatal (s0\<lparr>diagnostics := [(loc0, ''`null` not known for type `void`'')], errors := 1\<rparr>)"
  using DtoNullValue_by_category [of tcomplex32 LLFloat loc0 s0 tint32]
        DtoNullValue_by_category [of tint32 LLFloat loc0 s0 tint32]
        DtoNullValue_by_category [of taarray LLFloat loc0 s0 tint32]
        DtoNullValue_by_category [of tint_slice LLFloat loc0 s0 tint32]
        DtoNullValue_by_category [of tvoid LLFloat loc0 s0 tint32]
  by (simp add: tcomplex32_def tint32_def taarray_def tint_slice_def tvoid_def toBasetype_def
        DtoType_def DtoMemType_def s0_def error_def)


subsection \<open>Sequencing\<close>

lemma obind_Returned [simp]: "obind (Returned a s) f = f a s"
  by (simp add: obind_def)

lemma obind_lift [simp]: "obind (lift p) f = f (fst p) (snd p)"
  by (simp add: obind_def lift_def)

subsection \<open>What the extensions compute\<close>

text \<open>
  The bit-level meaning given to \<^verbatim>\<open>zext\<close> and \<^verbatim>\<open>sext\<close> is the usual one: a
  zero-extension keeps the unsigned value, a sign-extension stays within the target width
  and keeps the two's-complement value.
\<close>

lemma pow_pred_le: "0 < w \<Longrightarrow> w \<le> w' \<Longrightarrow> (2::nat) ^ (w - 1) \<le> 2 ^ (w' - 1)"
  by (simp add: diff_le_mono)

lemma add_diff_below: "(a::nat) \<le> b \<Longrightarrow> v < a \<Longrightarrow> v + (b - a) < b"
  by arith

lemma int_add_diff: "(a::nat) \<le> b \<Longrightarrow> int (v + (b - a)) - int b = int v - int a"
  by arith

lemma sext_bits_bound:
  assumes "w \<le> w'" and "v < 2 ^ w"
  shows "sext_bits w w' v < 2 ^ w'"
proof -
  have le: "(2::nat) ^ w \<le> 2 ^ w'" using assms(1) by simp
  have up: "v + (2 ^ w' - 2 ^ w) < 2 ^ w'" using le assms(2) by (rule add_diff_below)
  have same: "v < 2 ^ w'" using le assms(2) by linarith
  show ?thesis using assms(2) up same by (simp add: sext_bits_def Let_def)
qed

lemma sext_bits_keeps_signed_value:
  assumes "0 < w" and "w \<le> w'" and "v < 2 ^ w"
  shows "signedVal w' (sext_bits w w' v) = signedVal w v"
proof -
  have le: "(2::nat) ^ w \<le> 2 ^ w'" using assms(2) by simp
  have lep: "(2::nat) ^ (w - 1) \<le> 2 ^ (w' - 1)" using assms(1,2) by (rule pow_pred_le)
  have half: "(2::nat) ^ (w' - 1) \<le> 2 ^ w' - 2 ^ (w - 1)"
  proof -
    have "(2::nat) ^ w' = 2 ^ (w' - 1) + 2 ^ (w' - 1)"
      using assms(1,2) by (cases w') simp_all
    with lep show ?thesis by linarith
  qed
  have w': "0 < w'" using assms(1,2) by simp
  show ?thesis
  proof (cases "2 ^ (w - 1) \<le> v")
    case True
    have r: "sext_bits w w' v = v + (2 ^ w' - 2 ^ w)"
      using True assms by (simp add: sext_bits_def Let_def)
    have w2: "(2::nat) ^ w = 2 ^ (w - 1) + 2 ^ (w - 1)" using assms(1) by (cases w) simp_all
    have big: "2 ^ (w' - 1) \<le> v + (2 ^ w' - 2 ^ w)"
      using True half le w2 by linarith
    have "int (v + (2 ^ w' - 2 ^ w)) - 2 ^ w' = int v - 2 ^ w"
      using int_add_diff [OF le, of v] by simp
    with True big w' assms(1) show ?thesis by (simp add: signedVal_def r)
  next
    case False
    have r: "sext_bits w w' v = v" using False assms by (simp add: sext_bits_def Let_def)
    from False lep have "\<not> 2 ^ (w' - 1) \<le> v" by linarith
    with False show ?thesis by (simp add: signedVal_def r)
  qed
qed

lemma zext_bits_keeps_value: "v < 2 ^ w \<Longrightarrow> zext_bits w v = v"
  by (simp add: zext_bits_def)

lemma length_runInsts [simp]: "length (runInsts is) = length is"
  by (induction "is" rule: rev_induct) (simp_all add: runInsts_def)

lemma runInsts_snoc: "runInsts (is @ [i]) = runInsts is @ [evalInstr (runInsts is) i]"
  by (simp add: runInsts_def)

lemma valueOf_emitted:
  "valueOf (s\<lparr>insts := insts s @ [i]\<rparr>) (InstResult (length (insts s)) t) =
     evalInstr (runInsts (insts s)) i"
proof -
  have "(runInsts (insts s) @ [evalInstr (runInsts (insts s)) i]) ! length (runInsts (insts s)) =
      evalInstr (runInsts (insts s)) i"
    by (rule nth_append_length)
  then show ?thesis by (simp add: valueOf_def runInsts_snoc)
qed

text \<open>
  Read at run time, a widening cast by \<^verbatim>\<open>DtoCastInt\<close> of a \<open>w\<close>-bit value \<open>v\<close> to
  \<open>w'\<close> bits computes the zero-extension of \<open>v\<close> for an unsigned, \<^verbatim>\<open>bool\<close> or
  pointer source and the sign-extension of \<open>v\<close> otherwise.
\<close>

lemma widening_cast_value:
  assumes "isintegral (toBasetype (dtype val))" and "isintegral (toBasetype to0)"
    and "ty (toBasetype to0) \<noteq> Tbool"
    and "size' (toBasetype (dtype val)) < size' (toBasetype to0) \<or>
         ty (toBasetype (dtype val)) = Tbool"
    and "DtoRVal val s = Returned rval s1"
    and "llTypeOf rval = LLInt w" and "DtoType to0 = LLInt w'" and "w \<noteq> w'"
    and "valueOf s1 rval = Some v"
  shows "\<exists>r s2. DtoCastInt X loc val to0 s = Returned (DImValue to0 r) s2 \<and>
           valueOf s2 r =
             Some (if isLLVMUnsigned (toBasetype (dtype val)) \<or> ty (toBasetype (dtype val)) = Tbool
                   then zext_bits w v else sext_bits w w' v)"
proof -
  let ?opc = "if isLLVMUnsigned (toBasetype (dtype val)) \<or> ty (toBasetype (dtype val)) = Tbool
              then ZExt else SExt"
  let ?s2 = "s1\<lparr>insts := insts s1 @ [Instr ?opc [rval] (LLInt w')]\<rparr>"
  have ne: "llTypeOf rval \<noteq> DtoType to0" using assms(6,7,8) by simp
  have c: "DtoCastInt X loc val to0 s =
      Returned (DImValue to0 (InstResult (length (insts s1)) (LLInt w'))) ?s2"
    using assms(1-5) ne unfolding DtoCastInt_def Let_def
    by (auto simp: emit_def assms(7))
  have "valueOf ?s2 (InstResult (length (insts s1)) (LLInt w')) =
      evalInstr (runInsts (insts s1)) (Instr ?opc [rval] (LLInt w'))"
    by (rule valueOf_emitted)
  also have "\<dots> = Some (if isLLVMUnsigned (toBasetype (dtype val)) \<or>
                             ty (toBasetype (dtype val)) = Tbool
                          then zext_bits w v else sext_bits w w' v)"
    using assms(6,9) by (simp add: valueOf_def)
  finally show ?thesis using c by blast
qed

subsection \<open>Integer widening\<close>

text \<open>
  Claim C1. Take a cast by \<^verbatim>\<open>DtoCastInt\<close> from an integral type to an integral type
  other than \<^verbatim>\<open>bool\<close>, where the source is strictly smaller than the target or the
  source is \<^verbatim>\<open>bool\<close>, and where the IR type of the source value is not yet the IR
  type of the target (as it is not when the widths differ). The cast then emits exactly
  one instruction on the source value: a zero-extension when the source type is
  unsigned, is \<^verbatim>\<open>bool\<close> or is a pointer, a sign-extension otherwise; its result is
  the value returned, as an immediate of the target type. In particular the 16-bit
  unsigned constant \<open>0xFFFF\<close> cast to the 32-bit signed integer computes
  \<open>0x0000FFFF\<close>, and the 32-bit signed constant \<open>-1\<close> (\<open>0xFFFFFFFF\<close>) cast to the
  64-bit signed integer computes \<open>0xFFFFFFFFFFFFFFFF\<close>.
\<close>

theorem DtoCastInt_widening:
  "(isintegral (toBasetype (dtype val)) \<and> isintegral (toBasetype to0) \<and>
    ty (toBasetype to0) \<noteq> Tbool \<and>
    (size' (toBasetype (dtype val)) < size' (toBasetype to0) \<or> ty (toBasetype (dtype val)) = Tbool) \<and>
    DtoRVal val s = Returned rval s1 \<and> llTypeOf rval \<noteq> DtoType to0 \<longrightarrow>
      DtoCastInt X loc val to0 s =
        Returned (DImValue to0 (InstResult (length (insts s1)) (DtoType to0)))
          (s1\<lparr>insts := insts s1 @
             [Instr (if isunsigned (toBasetype (dtype val)) \<or>
                        ty (toBasetype (dtype val)) = Tbool \<or>
                        ty (toBasetype (dtype val)) = Tpointer then ZExt else SExt)
                    [rval] (DtoType to0)]\<rparr>))
   \<and>
   (\<exists>r s'. DtoCastInt X loc (DConstValue tuns16 (ConstantInt (LLInt 16) 0xFFFF)) tint32 s0 =
              Returned (DImValue tint32 r) s' \<and>
            valueOf s' r = Some 0x0000FFFF)
   \<and>
   (\<exists>r s'. DtoCastInt X loc (DConstValue tint32 (ConstantInt (LLInt 32) 0xFFFFFFFF)) tint64 s0 =
              Returned (DImValue tint64 r) s' \<and>
            valueOf s' r = Some 0xFFFFFFFFFFFFFFFF)"
proof (intro conjI impI)
  assume h: "isintegral (toBasetype (dtype val)) \<and> isintegral (toBasetype to0) \<and>
    ty (toBasetype to0) \<noteq> Tbool \<and>
    (size' (toBasetype (dtype val)) < size' (toBasetype to0) \<or> ty (toBasetype (dtype val)) = Tbool) \<and>
    DtoRVal val s = Returned rval s1 \<and> llTypeOf rval \<noteq> DtoType to0"
  then show "DtoCastInt X loc val to0 s =
        Returned (DImValue to0 (InstResult (length (insts s1)) (DtoType to0)))
          (s1\<lparr>insts := insts s1 @
             [Instr (if isunsigned (toBasetype (dtype val)) \<or>
                        ty (toBasetype (dtype val)) = Tbool \<or>
                        ty (toBasetype (dtype val)) = Tpointer then ZExt else SExt)
                    [rval] (DtoType to0)]\<rparr>)"
    unfolding DtoCastInt_def Let_def
    by (auto simp: emit_def isLLVMUnsigned_def)
next
  show "\<exists>r s'. DtoCastInt X loc (DConstValue tuns16 (ConstantInt (LLInt 16) 0xFFFF)) tint32 s0 =
              Returned (DImValue tint32 r) s' \<and> valueOf s' r = Some 0x0000FFFF"
    by (simp add: DtoCastInt_def Let_def tuns16_def tint32_def toBasetype_def DtoType_def
          isLLVMUnsigned_def emit_def s0_def valueOf_def runInsts_def zext_bits_def)
next
  show "\<exists>r s'. DtoCastInt X loc (DConstValue tint32 (ConstantInt (LLInt 32) 0xFFFFFFFF)) tint64 s0 =
              Returned (DImValue tint64 r) s' \<and> valueOf s' r = Some 0xFFFFFFFFFFFFFFFF"
    by (simp add: DtoCastInt_def Let_def tint32_def tint64_def toBasetype_def DtoType_def
          isLLVMUnsigned_def emit_def s0_def valueOf_def runInsts_def sext_bits_def)
qed

text \<open>
  The hypotheses of C1 hold for \<^verbatim>\<open>ushort\<close> to \<^verbatim>\<open>int\<close>, which zero-extends, for
  \<^verbatim>\<open>int\<close> to \<^verbatim>\<open>long\<close>, which sign-extends, and for \<^verbatim>\<open>bool\<close> to
  \<^verbatim>\<open>int\<close>, which zero-extends.
\<close>

theorem DtoCastInt_widening_witness:
  "DtoCastInt X0 loc0 (DConstValue tuns16 (ConstantInt (LLInt 16) 0xFFFF)) tint32 s0 =
     Returned (DImValue tint32 (InstResult 0 (LLInt 32)))
       (s0\<lparr>insts := [Instr ZExt [ConstantInt (LLInt 16) 0xFFFF] (LLInt 32)]\<rparr>)
   \<and>
   DtoCastInt X0 loc0 (DConstValue tint32 (ConstantInt (LLInt 32) 0xFFFFFFFF)) tint64 s0 =
     Returned (DImValue tint64 (InstResult 0 (LLInt 64)))
       (s0\<lparr>insts := [Instr SExt [ConstantInt (LLInt 32) 0xFFFFFFFF] (LLInt 64)]\<rparr>)
   \<and>
   DtoCastInt X0 loc0 (DImValue tbool (Argument ''b'' (LLInt 1))) tint32 s0 =
     Returned (DImValue tint32 (InstResult 0 (LLInt 32)))
       (s0\<lparr>insts := [Instr ZExt [Argument ''b'' (LLInt 1)] (LLInt 32)]\<rparr>)"
  using DtoCastInt_widening
          [where val = "DImValue tbool (Argument ''b'' (LLInt 1))" and ?to0.0 = tint32
             and s = s0 and rval = "Argument ''b'' (LLInt 1)" and ?s1.0 = s0
             and X = X0 and loc = loc0]
        DtoCastInt_widening
          [where val = "DConstValue tuns16 (ConstantInt (LLInt 16) 0xFFFF)" and ?to0.0 = tint32
             and s = s0 and rval = "ConstantInt (LLInt 16) 0xFFFF" and ?s1.0 = s0
             and X = X0 and loc = loc0]
        DtoCastInt_widening
          [where val = "DConstValue tint32 (ConstantInt (LLInt 32) 0xFFFFFFFF)" and ?to0.0 = tint64
             and s = s0 and rval = "ConstantInt (LLInt 32) 0xFFFFFFFF" and ?s1.0 = s0
             and X = X0 and loc = loc0]
  by (simp add: tuns16_def tint32_def tint64_def tbool_def toBasetype_def DtoType_def s0_def)

subsection \<open>Invalid casts\<close>

lemma reported_emit [simp]: "reported (snd (emit opc ops t s)) = reported s"
  by (simp add: emit_def reported_def)

lemma reported_irCreate [simp]: "reported (snd (irCreate opc ops t s)) = reported s"
  by (simp add: irCreate_def)

lemma reported_DtoBitCast [simp]: "reported (snd (DtoBitCast v t s)) = reported s"
  by (simp add: DtoBitCast_def)

lemma reported_DtoLoad [simp]: "reported (snd (DtoLoad p s)) = reported s"
  by (simp add: DtoLoad_def)

lemma reported_DtoAggrPair [simp]: "reported (snd (DtoAggrPair t a b s)) = reported s"
  by (simp add: DtoAggrPair_def split: prod.splits)
     (metis reported_irCreate snd_conv)

lemma reported_DtoRVal: "DtoRVal val s = Returned r s' \<Longrightarrow> reported s' = reported s"
proof (cases val)
  case (DSliceValue t l p)
  assume "DtoRVal val s = Returned r s'"
  then have "s' = snd (DtoAggrPair (LLStruct [llTypeOf l, llTypeOf p]) l p s)"
    using DSliceValue by (auto split: prod.splits)
  then show ?thesis by simp
next
  case (DLValue t p)
  assume "DtoRVal val s = Returned r s'"
  then have "s' = snd (DtoLoad p s)" using DLValue by (auto split: prod.splits)
  then show ?thesis by simp
next
  case (DSpecialRefValue t p)
  assume "DtoRVal val s = Returned r s'"
  then have "s' = snd (DtoLoad (fst (DtoLoad p s)) (snd (DtoLoad p s)))"
    using DSpecialRefValue by (auto split: prod.splits)
  then show ?thesis by simp
qed auto

lemma reported_DtoLVal: "DtoLVal val s = Returned r s' \<Longrightarrow> reported s' = reported s"
proof (cases val)
  case (DSpecialRefValue t p)
  assume "DtoLVal val s = Returned r s'"
  then have "s' = snd (DtoLoad p s)" using DSpecialRefValue by (auto split: prod.splits)
  then show ?thesis by simp
qed auto

lemma obind_ReturnedE:
  assumes "obind m f = Returned r s'"
  obtains a s1 where "m = Returned a s1" and "f a s1 = Returned r s'"
  using assms by (cases m) (auto simp: obind_def)

lemma reported_step:
  assumes m: "\<And>a s1. m = Returned a s1 \<Longrightarrow> reported s1 = reported s"
    and f: "\<And>a s1 r s'. f a s1 = Returned r s' \<Longrightarrow> reported s' = reported s1"
    and r: "obind m f = Returned r s'"
  shows "reported s' = reported s"
proof -
  from r obtain a s1 where 1: "m = Returned a s1" and 2: "f a s1 = Returned r s'"
    by (rule obind_ReturnedE)
  from f [OF 2] m [OF 1] show ?thesis by simp
qed

lemma reported_RVal_then:
  assumes f: "\<And>a s1 r s'. f a s1 = Returned r s' \<Longrightarrow> reported s' = reported s1"
    and r: "obind (DtoRVal val s) f = Returned r s'"
  shows "reported s' = reported s"
  using reported_step [where m = "DtoRVal val s" and f = f and s = s, OF _ _ r]
    reported_DtoRVal f by blast

lemma reported_LVal_then:
  assumes f: "\<And>a s1 r s'. f a s1 = Returned r s' \<Longrightarrow> reported s' = reported s1"
    and r: "obind (DtoLVal val s) f = Returned r s'"
  shows "reported s' = reported s"
  using reported_step [where m = "DtoLVal val s" and f = f and s = s, OF _ _ r]
    reported_DtoLVal f by blast

lemma reported_DtoCastInt:
  assumes q: "quietExternals X" and r: "DtoCastInt X loc val to s = Returned r s'"
  shows "reported s' = reported s"
proof -
  have c: "\<And>loc t v s r s'. DtoComplex X loc t v s = Returned r s' \<Longrightarrow> reported s' = reported s"
    using q unfolding quietExternals_def by metis+
  from r show ?thesis
    unfolding DtoCastInt_def Let_def
    by (auto split: if_splits elim!: reported_RVal_then [rotated] dest: c)
qed

lemma reported_DtoCastPtr:
  assumes r: "DtoCastPtr X loc val to s = Returned r s'"
  shows "reported s' = reported s"
  using r unfolding DtoCastPtr_def Let_def
  by (auto split: if_splits elim!: reported_RVal_then [rotated])

lemma reported_DtoCastFloat:
  assumes q: "quietExternals X" and r: "DtoCastFloat X loc val to s = Returned r s'"
  shows "reported s' = reported s"
proof -
  have c: "\<And>loc t v s r s'. DtoComplex X loc t v s = Returned r s' \<Longrightarrow> reported s' = reported s"
    using q unfolding quietExternals_def by metis+
  from r show ?thesis
    unfolding DtoCastFloat_def Let_def
    by (auto split: if_splits elim!: reported_RVal_then [rotated] dest: c)
qed

lemma reported_DtoCastDelegate:
  assumes q: "quietExternals X" and r: "DtoCastDelegate X loc val to s = Returned r s'"
  shows "reported s' = reported s"
proof -
  have c: "\<And>loc t v s r s'. DtoPaintType X loc v t s = Returned r s' \<Longrightarrow> reported s' = reported s"
    using q unfolding quietExternals_def by metis+
  have d: "\<And>v s. reported (snd (DtoDelegateEquals X v s)) = reported s"
    using q unfolding quietExternals_def by metis+
  from r show ?thesis
    unfolding DtoCastDelegate_def
    by (auto split: if_splits elim!: reported_RVal_then [rotated] dest: c simp: d)
qed

lemma reported_DtoCastVector:
  assumes q: "quietExternals X" and r: "DtoCastVector X loc val to s = Returned r s'"
  shows "reported s' = reported s"
proof -
  have d: "\<And>v t a s. reported (snd (DtoAllocaDump X v t a s)) = reported s"
    using q unfolding quietExternals_def by metis+
  from r show ?thesis
    unfolding DtoCastVector_def Let_def
    by (auto split: if_splits elim!: reported_RVal_then [rotated] reported_LVal_then [rotated]
             simp: d)
qed

lemma reported_DtoCastStruct:
  assumes r: "DtoCastStruct X loc val to s = Returned r s'"
  shows "reported s' = reported s"
  using r unfolding DtoCastStruct_def Let_def
  by (auto split: if_splits elim!: reported_LVal_then [rotated])

lemma reported_DtoAggrPair_eq:
  "DtoAggrPair t a b s = (res, s1) \<Longrightarrow> reported s1 = reported s"
  using reported_DtoAggrPair [of t a b s] by simp

lemma reported_DtoNullValue:
  assumes r: "DtoNullValue t loc s = Returned r s'"
  shows "reported s' = reported s"
  using r unfolding DtoNullValue_def Let_def
  by (auto split: if_splits option.splits prod.splits dest: reported_DtoAggrPair_eq)

lemma reported_DtoCast:
  assumes q: "quietExternals X" and r: "DtoCast X loc val to s = Returned r s'"
  shows "reported s' = reported s"
proof -
  have c: "\<And>loc t v s r s'. DtoCastComplex X loc v t s = Returned r s' \<Longrightarrow> reported s' = reported s"
    "\<And>loc t v s r s'. DtoCastClass X loc v t s = Returned r s' \<Longrightarrow> reported s' = reported s"
    "\<And>loc t v s r s'. DtoCastArray X loc v t s = Returned r s' \<Longrightarrow> reported s' = reported s"
    using q unfolding quietExternals_def by metis+
  note subs = reported_DtoCastInt [OF q] reported_DtoCastPtr reported_DtoCastFloat [OF q]
    reported_DtoCastDelegate [OF q] reported_DtoCastVector [OF q] reported_DtoCastStruct
    reported_DtoNullValue c
  from r show ?thesis
    unfolding DtoCast_def Let_def
    by (auto split: if_splits
             elim!: reported_RVal_then [rotated] reported_LVal_then [rotated]
             dest: subs)
qed

text \<open>
  Claim C3 says that an unrecognised pair of source and target category yields an error
  and an undefined value, handed back to the caller, instead of the end of the
  compilation. The code ends the compilation. Casting an \<^verbatim>\<open>int\<close> to a struct without
  gagging prints the error and terminates; casting a \<^verbatim>\<open>void\<close> value to \<^verbatim>\<open>int\<close>
  under gagging counts the error and terminates all the same: \<^verbatim>\<open>fatal()\<close> is called
  without a look at the gag counter, and no value is returned.
\<close>

theorem DtoCast_invalid_counterexample:
  "DtoCast X0 loc0 (DImValue tint32 (ConstantInt (LLInt 32) 1)) tstructS s0 =
     Fatal (s0\<lparr>diagnostics := [(loc0, ''invalid cast from `int` to `S`'')], errors := 1\<rparr>)
   \<and>
   DtoCast X0 loc0 (DImValue tvoid (UndefValue LLVoid)) tint32 (s0\<lparr>gag := 1\<rparr>) =
     Fatal (s0\<lparr>gag := 1, gaggedErrors := 1\<rparr>)"
  by (simp add: DtoCast_def DtoCastInt_def Let_def tint32_def tstructS_def tvoid_def toBasetype_def
        equals_def DtoType_def s0_def error_def invalid_cast_msg_def)

text \<open>
  Claim C3, amended. For every cast request whose pair of source and target category is
  not one of the recognised combinations, \<^verbatim>\<open>DtoCast\<close> reports an error (printed, or
  only counted under gagging) and terminates the compilation through \<^verbatim>\<open>fatal()\<close>,
  gagged or not; it returns nothing to its caller. The message is
  \<^verbatim>\<open>invalid cast from ... to ...\<close> when the source is of a kind \<^verbatim>\<open>DtoCast\<close> does
  not dispatch on, or a vector, integer, floating-point, pointer, function or delegate
  type whose cast function does not know the target; it is
  \<^verbatim>\<open>Internal Compiler Error: Invalid struct cast from ... to ...\<close> for a struct source
  and a target that is not a struct, and \<^verbatim>\<open>`null` not known for type ...\<close> for a
  \<^verbatim>\<open>null\<close> or \<^verbatim>\<open>noreturn\<close> source and a target type without a null value. For an
  integer source the error comes after the source value has been read, so in the
  context \<open>s1\<close> that reading leaves. A complex, class or array source is handed to
  \<^verbatim>\<open>DtoCastComplex\<close>, \<^verbatim>\<open>DtoCastClass\<close> or \<^verbatim>\<open>DtoCastArray\<close>, which are not among
  the sources: \<^verbatim>\<open>DtoCast\<close> passes their outcome on as it is. Reporting an error adds
  one to exactly one of the two error counters and prints the message when errors are
  not gagged. Conversely, whenever \<^verbatim>\<open>DtoCast\<close> does return a value, nothing has been
  reported, provided the helpers outside the sources report nothing when they return:
  no path of the cast engine reports an error and then returns.
\<close>

theorem DtoCast_invalid_is_fatal:
  "(\<not> (ty (toBasetype (dtype val)) = Taarray \<and> ty (toBasetype to) \<in> {Taarray, Tpointer, Tbool}) \<and>
    \<not> equals (toBasetype (dtype val)) (toBasetype to) \<and>
    \<not> isintegral (toBasetype (dtype val)) \<and> \<not> iscomplex (toBasetype (dtype val)) \<and> \<not> isfloating (toBasetype (dtype val)) \<and>
    ty (toBasetype (dtype val)) \<notin>
      {Tvector, Tclass, Tarray, Tsarray, Tpointer, Tfunction, Tdelegate, Tstruct, Tnull, Tnoreturn} \<longrightarrow>
      DtoCast X loc val to s = Fatal (error loc (invalid_cast_msg (dtype val) to) s))
   \<and>
   (ty (toBasetype (dtype val)) = Tvector \<and> \<not> equals (toBasetype (dtype val)) (toBasetype to) \<and> ty (toBasetype to) \<noteq> Tsarray \<and>
    \<not> (ty (toBasetype to) = Tvector \<and> size' to = size' (dtype val)) \<longrightarrow>
      DtoCast X loc val to s = Fatal (error loc (invalid_cast_msg (dtype val) to) s))
   \<and>
   (ty (toBasetype (dtype val)) \<notin> {Taarray, Tvector} \<and> isintegral (toBasetype (dtype val)) \<and>
    DtoRVal val s = Returned rval s1 \<and> llTypeOf rval \<noteq> DtoType to \<and>
    ty (toBasetype to) \<notin> {Tbool, Tpointer} \<and> \<not> isintegral (toBasetype to) \<and> \<not> iscomplex (toBasetype to) \<and> \<not> isfloating (toBasetype to) \<longrightarrow>
      DtoCast X loc val to s = Fatal (error loc (invalid_cast_msg (dtype val) to) s1))
   \<and>
   (ty (toBasetype (dtype val)) \<notin> {Taarray, Tvector} \<and> \<not> isintegral (toBasetype (dtype val)) \<and> \<not> iscomplex (toBasetype (dtype val)) \<and> isfloating (toBasetype (dtype val)) \<and>
    ty (toBasetype to) \<noteq> Tbool \<and> \<not> iscomplex (toBasetype to) \<and> \<not> isfloating (toBasetype to) \<and> \<not> isintegral (toBasetype to) \<longrightarrow>
      DtoCast X loc val to s = Fatal (error loc (invalid_cast_msg (dtype val) to) s))
   \<and>
   (ty (toBasetype (dtype val)) \<in> {Tpointer, Tfunction} \<and>
    \<not> isintegral (toBasetype (dtype val)) \<and> \<not> iscomplex (toBasetype (dtype val)) \<and> \<not> isfloating (toBasetype (dtype val)) \<and> \<not> equals (toBasetype (dtype val)) (toBasetype to) \<and>
    ty (toBasetype to) \<notin> {Tpointer, Tclass, Taarray, Tbool} \<and> \<not> isintegral (toBasetype to) \<longrightarrow>
      DtoCast X loc val to s = Fatal (error loc (invalid_cast_msg (dtype val) to) s))
   \<and>
   (ty (toBasetype (dtype val)) = Tdelegate \<and>
    \<not> isintegral (toBasetype (dtype val)) \<and> \<not> iscomplex (toBasetype (dtype val)) \<and> \<not> isfloating (toBasetype (dtype val)) \<and>
    ty (toBasetype to) \<notin> {Tdelegate, Tbool} \<longrightarrow>
      DtoCast X loc val to s = Fatal (error loc (invalid_cast_msg (dtype val) to) s))
   \<and>
   (ty (toBasetype (dtype val)) = Tstruct \<and>
    \<not> isintegral (toBasetype (dtype val)) \<and> \<not> iscomplex (toBasetype (dtype val)) \<and> \<not> isfloating (toBasetype (dtype val)) \<and>
    ty (toBasetype to) \<noteq> Tstruct \<longrightarrow>
      DtoCast X loc val to s =
        Fatal (error loc (''Internal Compiler Error: Invalid struct cast from `'' @
                          toChars (dtype val) @ ''` to `'' @ toChars to @ ''`'') s))
   \<and>
   (ty (toBasetype (dtype val)) \<in> {Tnull, Tnoreturn} \<and>
    \<not> isintegral (toBasetype (dtype val)) \<and> \<not> iscomplex (toBasetype (dtype val)) \<and> \<not> isfloating (toBasetype (dtype val)) \<and> \<not> equals (toBasetype (dtype val)) (toBasetype to) \<and>
    \<not> iscomplex (toBasetype to) \<and> \<not> isintegral (toBasetype to) \<and> \<not> isfloating (toBasetype to) \<and>
    ty (toBasetype to) \<notin> {Tpointer, Tnull, Tclass, Tdelegate, Taarray, Tarray} \<longrightarrow>
      DtoCast X loc val to s =
        Fatal (error loc (''`null` not known for type `'' @ toChars to @ ''`'') s))
   \<and>
   (ty (toBasetype (dtype val)) \<notin> {Taarray, Tvector} \<and> \<not> equals (toBasetype (dtype val)) (toBasetype to) \<and> \<not> isintegral (toBasetype (dtype val)) \<longrightarrow>
      (iscomplex (toBasetype (dtype val)) \<longrightarrow> DtoCast X loc val to s = DtoCastComplex X loc val to s) \<and>
      (\<not> iscomplex (toBasetype (dtype val)) \<and> \<not> isfloating (toBasetype (dtype val)) \<and> ty (toBasetype (dtype val)) = Tclass \<longrightarrow>
         DtoCast X loc val to s = DtoCastClass X loc val to s) \<and>
      (\<not> iscomplex (toBasetype (dtype val)) \<and> \<not> isfloating (toBasetype (dtype val)) \<and> ty (toBasetype (dtype val)) \<in> {Tarray, Tsarray} \<longrightarrow>
         DtoCast X loc val to s = DtoCastArray X loc val to s))
   \<and>
   errors (error loc msg s) + gaggedErrors (error loc msg s) = errors s + gaggedErrors s + 1
   \<and>
   diagnostics (error loc msg s) =
     (if gag s = 0 then diagnostics s @ [(loc, msg)] else diagnostics s)
   \<and>
   (quietExternals X \<and> DtoCast X loc val to s = Returned r s' \<longrightarrow> reported s' = reported s)"
proof (intro conjI impI)
  assume "\<not> (ty (toBasetype (dtype val)) = Taarray \<and> ty (toBasetype to) \<in> {Taarray, Tpointer, Tbool}) \<and>
    \<not> equals (toBasetype (dtype val)) (toBasetype to) \<and>
    \<not> isintegral (toBasetype (dtype val)) \<and> \<not> iscomplex (toBasetype (dtype val)) \<and> \<not> isfloating (toBasetype (dtype val)) \<and>
    ty (toBasetype (dtype val)) \<notin>
      {Tvector, Tclass, Tarray, Tsarray, Tpointer, Tfunction, Tdelegate, Tstruct, Tnull, Tnoreturn}"
  then show "DtoCast X loc val to s = Fatal (error loc (invalid_cast_msg (dtype val) to) s)"
    unfolding DtoCast_def Let_def by auto
next
  assume h: "ty (toBasetype (dtype val)) = Tvector \<and> \<not> equals (toBasetype (dtype val)) (toBasetype to) \<and> ty (toBasetype to) \<noteq> Tsarray \<and>
    \<not> (ty (toBasetype to) = Tvector \<and> size' to = size' (dtype val))"
  then have "DtoCast X loc val to s = DtoCastVector X loc val to s"
    unfolding DtoCast_def Let_def by simp
  also have "\<dots> = Fatal (error loc (invalid_cast_msg (dtype val) to) s)"
    using h unfolding DtoCastVector_def Let_def by auto
  finally show "DtoCast X loc val to s = Fatal (error loc (invalid_cast_msg (dtype val) to) s)" .
next
  assume h: "ty (toBasetype (dtype val)) \<notin> {Taarray, Tvector} \<and> isintegral (toBasetype (dtype val)) \<and>
    DtoRVal val s = Returned rval s1 \<and> llTypeOf rval \<noteq> DtoType to \<and>
    ty (toBasetype to) \<notin> {Tbool, Tpointer} \<and> \<not> isintegral (toBasetype to) \<and> \<not> iscomplex (toBasetype to) \<and> \<not> isfloating (toBasetype to)"
  then have "(toBasetype (dtype val)) \<noteq> (toBasetype to)" by auto
  with h have "DtoCast X loc val to s = DtoCastInt X loc val to s"
    unfolding DtoCast_def Let_def equals_def by simp
  also have "\<dots> = Fatal (error loc (invalid_cast_msg (dtype val) to) s1)"
    using h unfolding DtoCastInt_def Let_def by simp
  finally show "DtoCast X loc val to s = Fatal (error loc (invalid_cast_msg (dtype val) to) s1)" .
next
  assume h: "ty (toBasetype (dtype val)) \<notin> {Taarray, Tvector} \<and> \<not> isintegral (toBasetype (dtype val)) \<and> \<not> iscomplex (toBasetype (dtype val)) \<and> isfloating (toBasetype (dtype val)) \<and>
    ty (toBasetype to) \<noteq> Tbool \<and> \<not> iscomplex (toBasetype to) \<and> \<not> isfloating (toBasetype to) \<and> \<not> isintegral (toBasetype to)"
  then have ne: "(toBasetype (dtype val)) \<noteq> (toBasetype to)" by auto
  then have ne': "dtype val \<noteq> to" by auto
  from h ne have "DtoCast X loc val to s = DtoCastFloat X loc val to s"
    unfolding DtoCast_def Let_def equals_def by simp
  also have "\<dots> = Fatal (error loc (invalid_cast_msg (dtype val) to) s)"
    using h ne' unfolding DtoCastFloat_def Let_def by simp
  finally show "DtoCast X loc val to s = Fatal (error loc (invalid_cast_msg (dtype val) to) s)" .
next
  assume h: "ty (toBasetype (dtype val)) \<in> {Tpointer, Tfunction} \<and>
    \<not> isintegral (toBasetype (dtype val)) \<and> \<not> iscomplex (toBasetype (dtype val)) \<and> \<not> isfloating (toBasetype (dtype val)) \<and> \<not> equals (toBasetype (dtype val)) (toBasetype to) \<and>
    ty (toBasetype to) \<notin> {Tpointer, Tclass, Taarray, Tbool} \<and> \<not> isintegral (toBasetype to)"
  then have "DtoCast X loc val to s = DtoCastPtr X loc val to s"
    unfolding DtoCast_def Let_def by auto
  also have "\<dots> = Fatal (error loc (invalid_cast_msg (dtype val) to) s)"
    using h unfolding DtoCastPtr_def Let_def by auto
  finally show "DtoCast X loc val to s = Fatal (error loc (invalid_cast_msg (dtype val) to) s)" .
next
  assume h: "ty (toBasetype (dtype val)) = Tdelegate \<and>
    \<not> isintegral (toBasetype (dtype val)) \<and> \<not> iscomplex (toBasetype (dtype val)) \<and> \<not> isfloating (toBasetype (dtype val)) \<and>
    ty (toBasetype to) \<notin> {Tdelegate, Tbool}"
  then have "(toBasetype (dtype val)) \<noteq> (toBasetype to)" by auto
  with h have "DtoCast X loc val to s = DtoCastDelegate X loc val to s"
    unfolding DtoCast_def Let_def equals_def by simp
  also have "\<dots> = Fatal (error loc (invalid_cast_msg (dtype val) to) s)"
    using h unfolding DtoCastDelegate_def by simp
  finally show "DtoCast X loc val to s = Fatal (error loc (invalid_cast_msg (dtype val) to) s)" .
next
  assume h: "ty (toBasetype (dtype val)) = Tstruct \<and>
    \<not> isintegral (toBasetype (dtype val)) \<and> \<not> iscomplex (toBasetype (dtype val)) \<and> \<not> isfloating (toBasetype (dtype val)) \<and>
    ty (toBasetype to) \<noteq> Tstruct"
  then have "(toBasetype (dtype val)) \<noteq> (toBasetype to)" by auto
  with h have "DtoCast X loc val to s = DtoCastStruct X loc val to s"
    unfolding DtoCast_def Let_def equals_def by simp
  also have "\<dots> = Fatal (error loc (''Internal Compiler Error: Invalid struct cast from `'' @
                          toChars (dtype val) @ ''` to `'' @ toChars to @ ''`'') s)"
    using h unfolding DtoCastStruct_def Let_def by simp
  finally show "DtoCast X loc val to s =
        Fatal (error loc (''Internal Compiler Error: Invalid struct cast from `'' @
                          toChars (dtype val) @ ''` to `'' @ toChars to @ ''`'') s)" .
next
  assume h: "ty (toBasetype (dtype val)) \<in> {Tnull, Tnoreturn} \<and>
    \<not> isintegral (toBasetype (dtype val)) \<and> \<not> iscomplex (toBasetype (dtype val)) \<and> \<not> isfloating (toBasetype (dtype val)) \<and> \<not> equals (toBasetype (dtype val)) (toBasetype to) \<and>
    \<not> iscomplex (toBasetype to) \<and> \<not> isintegral (toBasetype to) \<and> \<not> isfloating (toBasetype to) \<and>
    ty (toBasetype to) \<notin> {Tpointer, Tnull, Tclass, Tdelegate, Taarray, Tarray}"
  then have "DtoCast X loc val to s = DtoNullValue to loc s"
    unfolding DtoCast_def Let_def by auto
  also have "\<dots> = Fatal (error loc (''`null` not known for type `'' @ toChars to @ ''`'') s)"
    using h unfolding DtoNullValue_def Let_def by simp
  finally show "DtoCast X loc val to s =
        Fatal (error loc (''`null` not known for type `'' @ toChars to @ ''`'') s)" .
next
  assume "ty (toBasetype (dtype val)) \<notin> {Taarray, Tvector} \<and> \<not> equals (toBasetype (dtype val)) (toBasetype to) \<and> \<not> isintegral (toBasetype (dtype val))"
    and "iscomplex (toBasetype (dtype val))"
  then show "DtoCast X loc val to s = DtoCastComplex X loc val to s"
    unfolding DtoCast_def Let_def by simp
next
  assume "ty (toBasetype (dtype val)) \<notin> {Taarray, Tvector} \<and> \<not> equals (toBasetype (dtype val)) (toBasetype to) \<and> \<not> isintegral (toBasetype (dtype val))"
    and "\<not> iscomplex (toBasetype (dtype val)) \<and> \<not> isfloating (toBasetype (dtype val)) \<and> ty (toBasetype (dtype val)) = Tclass"
  then show "DtoCast X loc val to s = DtoCastClass X loc val to s"
    unfolding DtoCast_def Let_def by simp
next
  assume "ty (toBasetype (dtype val)) \<notin> {Taarray, Tvector} \<and> \<not> equals (toBasetype (dtype val)) (toBasetype to) \<and> \<not> isintegral (toBasetype (dtype val))"
    and "\<not> iscomplex (toBasetype (dtype val)) \<and> \<not> isfloating (toBasetype (dtype val)) \<and> ty (toBasetype (dtype val)) \<in> {Tarray, Tsarray}"
  then show "DtoCast X loc val to s = DtoCastArray X loc val to s"
    unfolding DtoCast_def Let_def by auto
next
  show "errors (error loc msg s) + gaggedErrors (error loc msg s) =
      errors s + gaggedErrors s + 1"
    by (simp add: error_def)
next
  show "diagnostics (error loc msg s) =
     (if gag s = 0 then diagnostics s @ [(loc, msg)] else diagnostics s)"
    by (simp add: error_def)
next
  assume "quietExternals X \<and> DtoCast X loc val to s = Returned r s'"
  then show "reported s' = reported s" using reported_DtoCast by blast
qed

text \<open>
  One unrecognised pair for each source kind, without gagging and, for the first, with
  it; a complex, a class and a slice source, handed on; and a recognised cast,
  \<^verbatim>\<open>bool\<close> to \<^verbatim>\<open>int\<close>, which returns and has reported nothing.
\<close>

theorem DtoCast_invalid_is_fatal_witness:
  "DtoCast X0 loc0 (DImValue tvoid (UndefValue LLVoid)) tint32 s0 =
     Fatal (s0\<lparr>diagnostics := [(loc0, ''invalid cast from `void` to `int`'')], errors := 1\<rparr>)
   \<and>
   DtoCast X0 loc0 (DImValue tvoid (UndefValue LLVoid)) tint32 (s0\<lparr>gag := 1\<rparr>) =
     Fatal (s0\<lparr>gag := 1, gaggedErrors := 1\<rparr>)
   \<and>
   DtoCast X0 loc0 (DImValue tint4 (UndefValue (LLVector 4 (LLInt 32)))) tint32 s0 =
     Fatal (s0\<lparr>diagnostics := [(loc0, ''invalid cast from `__vector(int[4])` to `int`'')],
              errors := 1\<rparr>)
   \<and>
   DtoCast X0 loc0 (DImValue tint32 (ConstantInt (LLInt 32) 1)) tstructS s0 =
     Fatal (s0\<lparr>diagnostics := [(loc0, ''invalid cast from `int` to `S`'')], errors := 1\<rparr>)
   \<and>
   DtoCast X0 loc0 (DImValue tfloat32 (UndefValue LLFloat)) tstructS s0 =
     Fatal (s0\<lparr>diagnostics := [(loc0, ''invalid cast from `float` to `S`'')], errors := 1\<rparr>)
   \<and>
   DtoCast X0 loc0 (DImValue tvoidptr (ConstantNull (LLPointer (LLInt 8)))) tstructS s0 =
     Fatal (s0\<lparr>diagnostics := [(loc0, ''invalid cast from `void*` to `S`'')], errors := 1\<rparr>)
   \<and>
   DtoCast X0 loc0 (DImValue tdelegate (UndefValue (ctype tdelegate))) tint32 s0 =
     Fatal (s0\<lparr>diagnostics := [(loc0, ''invalid cast from `void delegate()` to `int`'')],
              errors := 1\<rparr>)
   \<and>
   DtoCast X0 loc0 (DLValue tstructS (Argument ''p'' (LLPointer (LLStruct [LLInt 32])))) tint32 s0 =
     Fatal (s0\<lparr>diagnostics :=
                 [(loc0, ''Internal Compiler Error: Invalid struct cast from `S` to `int`'')],
              errors := 1\<rparr>)
   \<and>
   DtoCast X0 loc0
       (DNullValue (Type ''typeof(null)'' Tnull 4 False False False False (LLPointer (LLInt 8))
                      None None None)
          (ConstantNull (LLPointer (LLInt 8)))) tstructS s0 =
     Fatal (s0\<lparr>diagnostics := [(loc0, ''`null` not known for type `S`'')], errors := 1\<rparr>)
   \<and>
   DtoCast X0 loc0 (DImValue tcomplex32 (UndefValue (ctype tcomplex32))) tstructS s0 =
     DtoCastComplex X0 loc0 (DImValue tcomplex32 (UndefValue (ctype tcomplex32))) tstructS s0
   \<and>
   DtoCast X0 loc0
       (DImValue (Type ''Object'' Tclass 4 False False False False (LLPointer (LLInt 8))
                    None None None)
          (ConstantNull (LLPointer (LLInt 8)))) tstructS s0 =
     DtoCastClass X0 loc0
       (DImValue (Type ''Object'' Tclass 4 False False False False (LLPointer (LLInt 8))
                    None None None)
          (ConstantNull (LLPointer (LLInt 8)))) tstructS s0
   \<and>
   DtoCast X0 loc0 (DImValue tint_slice (UndefValue (ctype tint_slice))) tstructS s0 =
     DtoCastArray X0 loc0 (DImValue tint_slice (UndefValue (ctype tint_slice))) tstructS s0
   \<and>
   quietExternals X0
   \<and>
   DtoCast X0 loc0 (DImValue tbool (Argument ''b'' (LLInt 1))) tint32 s0 =
     Returned (DImValue tint32 (InstResult 0 (LLInt 32)))
       (s0\<lparr>insts := [Instr ZExt [Argument ''b'' (LLInt 1)] (LLInt 32)]\<rparr>)
   \<and>
   reported (s0\<lparr>insts := [Instr ZExt [Argument ''b'' (LLInt 1)] (LLInt 32)]\<rparr>) = ([], 0, 0)"
proof -
  let ?tnull = "Type ''typeof(null)'' Tnull 4 False False False False (LLPointer (LLInt 8))
                  None None None"
  let ?tclass = "Type ''Object'' Tclass 4 False False False False (LLPointer (LLInt 8))
                   None None None"
  note defs = tint32_def tstructS_def tvoid_def tvoidptr_def tfloat32_def tdelegate_def
        tint4_def tcomplex32_def tint_slice_def tbool_def toBasetype_def equals_def DtoType_def
        s0_def error_def invalid_cast_msg_def
  note T = DtoCast_invalid_is_fatal
  have a: "DtoCast X0 loc0 (DImValue tvoid (UndefValue LLVoid)) tint32 s0 =
     Fatal (s0\<lparr>diagnostics := [(loc0, ''invalid cast from `void` to `int`'')], errors := 1\<rparr>)"
    using T [where val = "DImValue tvoid (UndefValue LLVoid)" and to = tint32 and s = s0
               and X = X0 and loc = loc0]
    by (simp add: defs)
  have b: "DtoCast X0 loc0 (DImValue tvoid (UndefValue LLVoid)) tint32 (s0\<lparr>gag := 1\<rparr>) =
     Fatal (s0\<lparr>gag := 1, gaggedErrors := 1\<rparr>)"
    using T [where val = "DImValue tvoid (UndefValue LLVoid)" and to = tint32
               and s = "s0\<lparr>gag := 1\<rparr>" and X = X0 and loc = loc0]
    by (simp add: defs)
  have c: "DtoCast X0 loc0 (DImValue tint4 (UndefValue (LLVector 4 (LLInt 32)))) tint32 s0 =
     Fatal (s0\<lparr>diagnostics := [(loc0, ''invalid cast from `__vector(int[4])` to `int`'')],
              errors := 1\<rparr>)"
    using T [where val = "DImValue tint4 (UndefValue (LLVector 4 (LLInt 32)))" and to = tint32
               and s = s0 and X = X0 and loc = loc0]
    by (simp add: defs)
  have d: "DtoCast X0 loc0 (DImValue tint32 (ConstantInt (LLInt 32) 1)) tstructS s0 =
     Fatal (s0\<lparr>diagnostics := [(loc0, ''invalid cast from `int` to `S`'')], errors := 1\<rparr>)"
    using T [where val = "DImValue tint32 (ConstantInt (LLInt 32) 1)" and to = tstructS
               and s = s0 and rval = "ConstantInt (LLInt 32) 1" and ?s1.0 = s0
               and X = X0 and loc = loc0]
    by (simp add: defs)
  have e: "DtoCast X0 loc0 (DImValue tfloat32 (UndefValue LLFloat)) tstructS s0 =
     Fatal (s0\<lparr>diagnostics := [(loc0, ''invalid cast from `float` to `S`'')], errors := 1\<rparr>)"
    using T [where val = "DImValue tfloat32 (UndefValue LLFloat)" and to = tstructS
               and s = s0 and X = X0 and loc = loc0]
    by (simp add: defs)
  have f: "DtoCast X0 loc0 (DImValue tvoidptr (ConstantNull (LLPointer (LLInt 8)))) tstructS s0 =
     Fatal (s0\<lparr>diagnostics := [(loc0, ''invalid cast from `void*` to `S`'')], errors := 1\<rparr>)"
    using T [where val = "DImValue tvoidptr (ConstantNull (LLPointer (LLInt 8)))"
               and to = tstructS and s = s0 and X = X0 and loc = loc0]
    by (simp add: defs)
  have g: "DtoCast X0 loc0 (DImValue tdelegate (UndefValue (ctype tdelegate))) tint32 s0 =
     Fatal (s0\<lparr>diagnostics := [(loc0, ''invalid cast from `void delegate()` to `int`'')],
              errors := 1\<rparr>)"
    using T [where val = "DImValue tdelegate (UndefValue (ctype tdelegate))" and to = tint32
               and s = s0 and X = X0 and loc = loc0]
    by (simp add: defs)
  have h: "DtoCast X0 loc0 (DLValue tstructS (Argument ''p'' (LLPointer (LLStruct [LLInt 32]))))
       tint32 s0 =
     Fatal (s0\<lparr>diagnostics :=
                 [(loc0, ''Internal Compiler Error: Invalid struct cast from `S` to `int`'')],
              errors := 1\<rparr>)"
    using T [where val = "DLValue tstructS (Argument ''p'' (LLPointer (LLStruct [LLInt 32])))"
               and to = tint32 and s = s0 and X = X0 and loc = loc0]
    by (simp add: defs)
  have i: "DtoCast X0 loc0 (DNullValue ?tnull (ConstantNull (LLPointer (LLInt 8)))) tstructS s0 =
     Fatal (s0\<lparr>diagnostics := [(loc0, ''`null` not known for type `S`'')], errors := 1\<rparr>)"
    using T [where val = "DNullValue ?tnull (ConstantNull (LLPointer (LLInt 8)))"
               and to = tstructS and s = s0 and X = X0 and loc = loc0]
    by (simp add: defs)
  have j: "DtoCast X0 loc0 (DImValue tcomplex32 (UndefValue (ctype tcomplex32))) tstructS s0 =
     DtoCastComplex X0 loc0 (DImValue tcomplex32 (UndefValue (ctype tcomplex32))) tstructS s0"
    using T [where val = "DImValue tcomplex32 (UndefValue (ctype tcomplex32))"
               and to = tstructS and s = s0 and X = X0 and loc = loc0]
    by (simp add: defs)
  have k: "DtoCast X0 loc0 (DImValue ?tclass (ConstantNull (LLPointer (LLInt 8)))) tstructS s0 =
     DtoCastClass X0 loc0 (DImValue ?tclass (ConstantNull (LLPointer (LLInt 8)))) tstructS s0"
    using T [where val = "DImValue ?tclass (ConstantNull (LLPointer (LLInt 8)))"
               and to = tstructS and s = s0 and X = X0 and loc = loc0]
    by (simp add: defs)
  have l: "DtoCast X0 loc0 (DImValue tint_slice (UndefValue (ctype tint_slice))) tstructS s0 =
     DtoCastArray X0 loc0 (DImValue tint_slice (UndefValue (ctype tint_slice))) tstructS s0"
    using T [where val = "DImValue tint_slice (UndefValue (ctype tint_slice))"
               and to = tstructS and s = s0 and X = X0 and loc = loc0]
    by (simp add: defs)
  have q: "quietExternals X0"
    by (simp add: quietExternals_def X0_def)
  have m: "DtoCast X0 loc0 (DImValue tbool (Argument ''b'' (LLInt 1))) tint32 s0 =
     Returned (DImValue tint32 (InstResult 0 (LLInt 32)))
       (s0\<lparr>insts := [Instr ZExt [Argument ''b'' (LLInt 1)] (LLInt 32)]\<rparr>)"
    by (simp add: DtoCast_def DtoCastInt_def Let_def emit_def defs)
  have n: "reported (s0\<lparr>insts := [Instr ZExt [Argument ''b'' (LLInt 1)] (LLInt 32)]\<rparr>) =
      ([], 0, 0)"
    using T [where val = "DImValue tbool (Argument ''b'' (LLInt 1))" and to = tint32 and s = s0
               and X = X0 and loc = loc0
               and r = "DImValue tint32 (InstResult 0 (LLInt 32))"
               and s' = "s0\<lparr>insts := [Instr ZExt [Argument ''b'' (LLInt 1)] (LLInt 32)]\<rparr>"]
      q m
    by (simp add: reported_def s0_def)
  from a b c d e f g h i j k l q m n show ?thesis by blast
qed

subsection \<open>Casting a value to its own type\<close>

text \<open>
  Claim C8 says that a cast to a type with the same base type returns the same value
  object and emits nothing. For associative arrays \<^verbatim>\<open>DtoCast\<close> takes its first
  branch before it compares the types, and builds a new value: the null value of an
  associative-array type, cast to that very type, comes back as a plain immediate.
\<close>

theorem DtoCast_same_type_counterexample:
  "DtoCast X0 loc0 (DNullValue taarray (ConstantNull (LLPointer (LLInt 8)))) taarray s0 =
     Returned (DImValue taarray (ConstantNull (LLPointer (LLInt 8)))) s0
   \<and> DImValue taarray (ConstantNull (LLPointer (LLInt 8))) \<noteq>
     DNullValue taarray (ConstantNull (LLPointer (LLInt 8)))"
  by (simp add: DtoCast_def Let_def taarray_def toBasetype_def)

text \<open>
  Claim C8, amended. For every value whose base type is not an associative array, casting
  it with \<^verbatim>\<open>DtoCast\<close> to a type of equal base type returns the same value unchanged
  and emits no instruction (the build context is unchanged); and \<^verbatim>\<open>DtoCastFloat\<close>
  returns its operand unchanged when the target is the operand's own type.
\<close>

theorem DtoCast_same_type:
  "(ty (toBasetype (dtype val)) \<noteq> Taarray \<and> equals (toBasetype (dtype val)) (toBasetype to) \<longrightarrow>
      DtoCast X loc val to s = Returned val s)
   \<and>
   (dtype val = to \<longrightarrow> DtoCastFloat X loc val to s = Returned val s)"
  by (simp add: DtoCast_def DtoCastFloat_def Let_def)

text \<open>A struct lvalue cast to its own type, and \<^verbatim>\<open>DtoCastFloat\<close> on equal types.\<close>

theorem DtoCast_same_type_witness:
  "DtoCast X0 loc0 (DLValue tstructS (Argument ''a'' (LLPointer (LLStruct [LLInt 32])))) tstructS s0 =
     Returned (DLValue tstructS (Argument ''a'' (LLPointer (LLStruct [LLInt 32])))) s0
   \<and>
   DtoCastFloat X0 loc0 (DImValue tint32 (ConstantInt (LLInt 32) 7)) tint32 s0 =
     Returned (DImValue tint32 (ConstantInt (LLInt 32) 7)) s0"
  using DtoCast_same_type [where val = "DLValue tstructS (Argument ''a'' (LLPointer (LLStruct [LLInt 32])))"
          and to = tstructS and X = X0 and loc = loc0 and s = s0]
        DtoCast_same_type [where val = "DImValue tint32 (ConstantInt (LLInt 32) 7)" and to = tint32
          and X = X0 and loc = loc0 and s = s0]
  by (simp add: tstructS_def toBasetype_def equals_def)

subsection \<open>Struct assignment\<close>

lemma DtoLVal_only_loads:
  "DtoLVal v s = Returned a s1 \<Longrightarrow>
     \<exists>new. insts s1 = insts s @ new \<and> (\<forall>i \<in> set new. \<not> writesMemory i)"
  by (cases v) (auto simp: DtoLoad_def emit_def)

text \<open>
  Claim C4 says that a struct assignment whose destination and source address are
  identical emits no memory copy. \<^verbatim>\<open>DtoAssign\<close> compares the two addresses as IR
  values, at compile time. For a \<^verbatim>\<open>ref\<close> variable assigned to itself each side loads
  the address from the reference, the two loads are two different IR values, and the
  copy is emitted from an address onto the same address.
\<close>

theorem DtoAssign_ref_self_counterexample:
  "DtoAssign X0 loc0
      (DSpecialRefValue tstructS (Argument ''r'' (LLPointer (LLPointer (LLStruct [LLInt 32])))))
      (DSpecialRefValue tstructS (Argument ''r'' (LLPointer (LLPointer (LLStruct [LLInt 32])))))
      0 False s0 =
     Returned ()
       (s0\<lparr>insts :=
          [Instr Load [Argument ''r'' (LLPointer (LLPointer (LLStruct [LLInt 32])))]
             (LLPointer (LLStruct [LLInt 32])),
           Instr Load [Argument ''r'' (LLPointer (LLPointer (LLStruct [LLInt 32])))]
             (LLPointer (LLStruct [LLInt 32])),
           Instr MemCpy [InstResult 1 (LLPointer (LLStruct [LLInt 32])),
                         InstResult 0 (LLPointer (LLStruct [LLInt 32]))] LLVoid]\<rparr>)"
  by (simp add: DtoAssign_def Let_def tstructS_def toBasetype_def DtoLoad_def emit_def
        DtoMemCpy_def pointee_def s0_def)

text \<open>
  Claim C4, amended. In a struct-typed assignment \<^verbatim>\<open>DtoAssign\<close> skips the memory
  copy exactly when the destination address and the source address are the same IR
  value, which is the comparison the code makes at compile time. Then whatever it adds
  to the function comes from computing the two addresses and writes no memory, so the
  bytes of the destination stay as they are; when the two IR values differ, one memory
  copy from the source to the destination follows. Two plain addressable values of one
  address are such a self-assignment: nothing at all is emitted. Two special references
  are not, even when they are the same reference: each side loads its address and the
  copy is emitted. And for every assignment of a struct type with zero fields, whatever
  the two sides are, nothing at all is emitted.
\<close>

theorem DtoAssign_struct_copy:
  "(ty (toBasetype (dtype lhs)) = Tstruct \<and> sym (toBasetype (dtype lhs)) = Some sd \<and>
    0 < fields_length sd \<and>
    DtoLVal rhs s = Returned src s1 \<and> DtoLVal lhs s1 = Returned dst s2 \<longrightarrow>
      DtoAssign X loc lhs rhs opc c s =
        Returned () (if src = dst then s2
                     else s2\<lparr>insts := insts s2 @ [Instr MemCpy [dst, src] LLVoid]\<rparr>) \<and>
      (\<exists>new. insts s2 = insts s @ new \<and> (\<forall>i \<in> set new. \<not> writesMemory i)))
   \<and>
   (ty (toBasetype t) = Tstruct \<and> sym (toBasetype t) = Some sd \<and> 0 < fields_length sd \<longrightarrow>
      DtoAssign X loc (DLValue t a) (DLValue t' a) opc c s = Returned () s)
   \<and>
   (ty (toBasetype t) = Tstruct \<and> sym (toBasetype t) = Some sd \<and> 0 < fields_length sd \<longrightarrow>
      DtoAssign X loc (DSpecialRefValue t p) (DSpecialRefValue t' q) opc c s =
        Returned ()
          (s\<lparr>insts := insts s @
             [Instr Load [q] (pointee (llTypeOf q)),
              Instr Load [p] (pointee (llTypeOf p)),
              Instr MemCpy [InstResult (Suc (length (insts s))) (pointee (llTypeOf p)),
                            InstResult (length (insts s)) (pointee (llTypeOf q))] LLVoid]\<rparr>))
   \<and>
   (ty (toBasetype (dtype lhs)) = Tstruct \<and> sym (toBasetype (dtype lhs)) = Some sd \<and>
    fields_length sd = 0 \<longrightarrow>
      DtoAssign X loc lhs rhs opc c s = Returned () s)"
proof (intro conjI impI)
  assume h: "ty (toBasetype (dtype lhs)) = Tstruct \<and> sym (toBasetype (dtype lhs)) = Some sd \<and>
    0 < fields_length sd \<and>
    DtoLVal rhs s = Returned src s1 \<and> DtoLVal lhs s1 = Returned dst s2"
  then show "DtoAssign X loc lhs rhs opc c s =
        Returned () (if src = dst then s2
                     else s2\<lparr>insts := insts s2 @ [Instr MemCpy [dst, src] LLVoid]\<rparr>)"
    unfolding DtoAssign_def Let_def by (simp add: DtoMemCpy_def emit_def)
  from h obtain n1 where n1: "insts s1 = insts s @ n1" "\<forall>i \<in> set n1. \<not> writesMemory i"
    using DtoLVal_only_loads by blast
  from h obtain n2 where n2: "insts s2 = insts s1 @ n2" "\<forall>i \<in> set n2. \<not> writesMemory i"
    using DtoLVal_only_loads by blast
  have "insts s2 = insts s @ (n1 @ n2)" using n1 n2 by simp
  moreover have "\<forall>i \<in> set (n1 @ n2). \<not> writesMemory i" using n1 n2 by auto
  ultimately show "\<exists>new. insts s2 = insts s @ new \<and> (\<forall>i \<in> set new. \<not> writesMemory i)"
    by blast
next
  assume "ty (toBasetype t) = Tstruct \<and> sym (toBasetype t) = Some sd \<and> 0 < fields_length sd"
  then show "DtoAssign X loc (DLValue t a) (DLValue t' a) opc c s = Returned () s"
    unfolding DtoAssign_def Let_def by simp
next
  assume "ty (toBasetype t) = Tstruct \<and> sym (toBasetype t) = Some sd \<and> 0 < fields_length sd"
  then show "DtoAssign X loc (DSpecialRefValue t p) (DSpecialRefValue t' q) opc c s =
        Returned ()
          (s\<lparr>insts := insts s @
             [Instr Load [q] (pointee (llTypeOf q)),
              Instr Load [p] (pointee (llTypeOf p)),
              Instr MemCpy [InstResult (Suc (length (insts s))) (pointee (llTypeOf p)),
                            InstResult (length (insts s)) (pointee (llTypeOf q))] LLVoid]\<rparr>)"
    unfolding DtoAssign_def Let_def by (simp add: DtoLoad_def emit_def DtoMemCpy_def)
next
  assume "ty (toBasetype (dtype lhs)) = Tstruct \<and> sym (toBasetype (dtype lhs)) = Some sd \<and>
    fields_length sd = 0"
  then show "DtoAssign X loc lhs rhs opc c s = Returned () s"
    unfolding DtoAssign_def Let_def by simp
qed

text \<open>
  A one-field struct assigned to itself (nothing emitted) and from another variable (one
  copy), a \<^verbatim>\<open>ref\<close> to such a struct assigned to itself (two loads and a copy), and an
  empty struct assigned from another (nothing emitted).
\<close>

theorem DtoAssign_struct_copy_witness:
  "DtoAssign X0 loc0 (DLValue tstructS (Argument ''x'' (LLPointer (LLStruct [LLInt 32]))))
      (DLValue tstructS (Argument ''x'' (LLPointer (LLStruct [LLInt 32])))) 0 False s0 =
     Returned () s0
   \<and>
   DtoAssign X0 loc0 (DLValue tstructS (Argument ''x'' (LLPointer (LLStruct [LLInt 32]))))
      (DLValue tstructS (Argument ''y'' (LLPointer (LLStruct [LLInt 32])))) 0 False s0 =
     Returned ()
       (s0\<lparr>insts := [Instr MemCpy [Argument ''x'' (LLPointer (LLStruct [LLInt 32])),
                                    Argument ''y'' (LLPointer (LLStruct [LLInt 32]))] LLVoid]\<rparr>)
   \<and>
   DtoAssign X0 loc0
      (DSpecialRefValue tstructS (Argument ''r'' (LLPointer (LLPointer (LLStruct [LLInt 32])))))
      (DSpecialRefValue tstructS (Argument ''r'' (LLPointer (LLPointer (LLStruct [LLInt 32])))))
      0 False s0 =
     Returned ()
       (s0\<lparr>insts :=
          [Instr Load [Argument ''r'' (LLPointer (LLPointer (LLStruct [LLInt 32])))]
             (LLPointer (LLStruct [LLInt 32])),
           Instr Load [Argument ''r'' (LLPointer (LLPointer (LLStruct [LLInt 32])))]
             (LLPointer (LLStruct [LLInt 32])),
           Instr MemCpy [InstResult 1 (LLPointer (LLStruct [LLInt 32])),
                         InstResult 0 (LLPointer (LLStruct [LLInt 32]))] LLVoid]\<rparr>)
   \<and>
   DtoAssign X0 loc0 (DLValue tstructEmpty (Argument ''x'' (LLPointer (LLStruct []))))
      (DLValue tstructEmpty (Argument ''y'' (LLPointer (LLStruct [])))) 0 False s0 =
     Returned () s0"
proof -
  let ?x = "Argument ''x'' (LLPointer (LLStruct [LLInt 32]))"
  let ?y = "Argument ''y'' (LLPointer (LLStruct [LLInt 32]))"
  let ?r = "Argument ''r'' (LLPointer (LLPointer (LLStruct [LLInt 32])))"
  let ?sd = "StructDeclaration 1 True False"
  note T = DtoAssign_struct_copy
  have a: "DtoAssign X0 loc0 (DLValue tstructS ?x) (DLValue tstructS ?x) 0 False s0 = Returned () s0"
    using T [where t = tstructS and t' = tstructS and sd = ?sd and a = ?x and X = X0
               and loc = loc0 and opc = 0 and c = False and s = s0]
    by (simp add: tstructS_def toBasetype_def)
  have b: "DtoAssign X0 loc0 (DLValue tstructS ?x) (DLValue tstructS ?y) 0 False s0 =
      Returned () (s0\<lparr>insts := [Instr MemCpy [?x, ?y] LLVoid]\<rparr>)"
    using T [where lhs = "DLValue tstructS ?x" and rhs = "DLValue tstructS ?y" and sd = ?sd
               and src = ?y and dst = ?x and s = s0 and ?s1.0 = s0 and ?s2.0 = s0 and X = X0
               and loc = loc0 and opc = 0 and c = False]
    by (simp add: tstructS_def toBasetype_def s0_def)
  have c: "DtoAssign X0 loc0 (DSpecialRefValue tstructS ?r) (DSpecialRefValue tstructS ?r)
      0 False s0 =
     Returned ()
       (s0\<lparr>insts :=
          [Instr Load [?r] (LLPointer (LLStruct [LLInt 32])),
           Instr Load [?r] (LLPointer (LLStruct [LLInt 32])),
           Instr MemCpy [InstResult 1 (LLPointer (LLStruct [LLInt 32])),
                         InstResult 0 (LLPointer (LLStruct [LLInt 32]))] LLVoid]\<rparr>)"
    using T [where t = tstructS and t' = tstructS and sd = ?sd and p = ?r and q = ?r and X = X0
               and loc = loc0 and opc = 0 and c = False and s = s0]
    by (simp add: tstructS_def toBasetype_def s0_def pointee_def)
  have d: "DtoAssign X0 loc0 (DLValue tstructEmpty (Argument ''x'' (LLPointer (LLStruct []))))
      (DLValue tstructEmpty (Argument ''y'' (LLPointer (LLStruct [])))) 0 False s0 = Returned () s0"
    using T [where lhs = "DLValue tstructEmpty (Argument ''x'' (LLPointer (LLStruct [])))"
               and rhs = "DLValue tstructEmpty (Argument ''y'' (LLPointer (LLStruct [])))"
               and sd = "StructDeclaration 0 True False" and X = X0
               and loc = loc0 and opc = 0 and c = False and s = s0]
    by (simp add: tstructEmpty_def toBasetype_def)
  from a b c d show ?thesis by blast
qed

subsection \<open>Redeclaration of a global\<close>

text \<open>
  Claim C5 says that a redeclaration whose requested thread-locality differs from the
  existing declaration is a fatal error. On WebAssembly (and AVR) \<^verbatim>\<open>declareGlobal\<close>
  first drops the request: a thread-local redeclaration of a global that is not
  thread-local is accepted there, and the existing global is returned.
\<close>

theorem declareGlobal_redeclaration_counterexample:
  "declareGlobal (triple_of wasm32 UnknownOS) GeneralDynamicTLSModel loc0 [''x'' \<mapsto> gvar_x]
      (LLInt 32) ''x'' False True False s0 =
     Returned (gvar_x, [''x'' \<mapsto> gvar_x]) s0
   \<and> gv_isThreadLocal gvar_x \<noteq> True"
  by (simp add: declareGlobal_def Let_def triple_of_def gvar_x_def gv_isThreadLocal_def)

text \<open>
  Claim C5, amended. For every call of \<^verbatim>\<open>declareGlobal\<close> with a mangled name already
  in the module: if the requested IR type or constant-ness differs from the existing
  declaration, or the existing thread-locality differs from the requested one taken as
  non-thread-local on WebAssembly and AVR, then an error is reported (one error more is
  counted, and without gagging the message is printed) and the compilation terminates; if
  all three agree, the existing global is returned and the module is unchanged.
\<close>

theorem declareGlobal_redeclaration:
  "module0 mangledName = Some existing \<longrightarrow>
     ((gv_valueType existing \<noteq> type0 \<or> gv_isConstant existing \<noteq> isConstant \<or>
       gv_isThreadLocal existing \<noteq>
         (isThreadLocal \<and> getArch triple \<notin> {wasm32, wasm64, avr}) \<longrightarrow>
         (\<exists>s'. declareGlobal triple threadModel loc module0 type0 mangledName isConstant
                  isThreadLocal useDLLImport s = Fatal s' \<and>
               errors s' + gaggedErrors s' = Suc (errors s + gaggedErrors s) \<and>
               (gag s = 0 \<longrightarrow>
                  (loc, ''Global variable type does not match previous declaration with '' @
                        ''same mangled name: `'' @ mangledName @ ''`'') \<in> set (diagnostics s'))))
      \<and>
      (gv_valueType existing = type0 \<and> gv_isConstant existing = isConstant \<and>
       gv_isThreadLocal existing =
         (isThreadLocal \<and> getArch triple \<notin> {wasm32, wasm64, avr}) \<longrightarrow>
         declareGlobal triple threadModel loc module0 type0 mangledName isConstant
           isThreadLocal useDLLImport s = Returned (existing, module0) s))"
  unfolding declareGlobal_def Let_def
  by (auto simp: suppl_def errorSupplemental_def error_def)

text \<open>A redeclaration with another IR type, and one that agrees.\<close>

theorem declareGlobal_redeclaration_witness:
  "(\<exists>s'. declareGlobal (triple_of x86 Linux) GeneralDynamicTLSModel loc0 [''x'' \<mapsto> gvar_x]
            (LLInt 64) ''x'' False False False s0 = Fatal s' \<and>
         errors s' + gaggedErrors s' = 1 \<and>
         (loc0, ''Global variable type does not match previous declaration with '' @
                ''same mangled name: `x`'') \<in> set (diagnostics s'))
   \<and>
   declareGlobal (triple_of x86 Linux) GeneralDynamicTLSModel loc0 [''x'' \<mapsto> gvar_x]
      (LLInt 32) ''x'' False False False s0 = Returned (gvar_x, [''x'' \<mapsto> gvar_x]) s0"
  using declareGlobal_redeclaration
          [where ?module0.0 = "[''x'' \<mapsto> gvar_x]" and mangledName = "''x''" and existing = gvar_x
             and ?type0.0 = "LLInt 64" and isConstant = False and isThreadLocal = False
             and triple = "triple_of x86 Linux" and threadModel = GeneralDynamicTLSModel
             and loc = loc0 and useDLLImport = False and s = s0]
        declareGlobal_redeclaration
          [where ?module0.0 = "[''x'' \<mapsto> gvar_x]" and mangledName = "''x''" and existing = gvar_x
             and ?type0.0 = "LLInt 32" and isConstant = False and isThreadLocal = False
             and triple = "triple_of x86 Linux" and threadModel = GeneralDynamicTLSModel
             and loc = loc0 and useDLLImport = False and s = s0]
  by (auto simp: gvar_x_def gv_isThreadLocal_def triple_of_def s0_def)

subsection \<open>The thread-local storage model\<close>

lemma clThreadModel_is_tls: "clThreadModel opts = Some m \<Longrightarrow> m \<noteq> NotThreadLocal"
  by (induction opts rule: clThreadModel.induct)
     (auto simp: parseThreadModel_def split: if_splits option.splits)

text \<open>
  Claim C9 says that a thread-local global gets the model the option selects. On 32-bit
  PowerPC the option is ignored: with the default (\<^verbatim>\<open>global-dynamic\<close>) the global is
  created \<^verbatim>\<open>local-exec\<close>.
\<close>

theorem declareGlobal_tls_counterexample:
  "clThreadModel [] = Some GeneralDynamicTLSModel \<and>
   declareGlobal (triple_of ppc Linux) GeneralDynamicTLSModel loc0 Map.empty
      (LLInt 32) ''x'' False True False s0 =
     Returned (gvar_x\<lparr>gv_threadLocalMode := LocalExecTLSModel\<rparr>,
               [''x'' \<mapsto> gvar_x\<lparr>gv_threadLocalMode := LocalExecTLSModel\<rparr>]) s0"
  by (simp add: declareGlobal_def Let_def triple_of_def gvar_x_def isOSWindows_def)

text \<open>
  Claim C9, amended. For every thread-local global variable that \<^verbatim>\<open>declareGlobal\<close>
  creates on a target other than 32-bit PowerPC, WebAssembly and AVR, the model of the
  new global is the one the thread-model option selects: \<^verbatim>\<open>global-dynamic\<close> when the
  option is absent, or the model named by \<^verbatim>\<open>global-dynamic\<close>, \<^verbatim>\<open>local-dynamic\<close>,
  \<^verbatim>\<open>initial-exec\<close> or \<^verbatim>\<open>local-exec\<close>. On 32-bit PowerPC the model is always
  \<^verbatim>\<open>local-exec\<close>; on WebAssembly and AVR the global is not thread-local at all.
\<close>

theorem declareGlobal_tls_model:
  "(clThreadModel opts = Some m \<and> module0 mangledName = None \<and>
    getArch triple \<notin> {wasm32, wasm64, avr, ppc} \<longrightarrow>
      (\<exists>g. declareGlobal triple m loc module0 type0 mangledName isConstant True useDLLImport s =
              Returned (g, module0(mangledName \<mapsto> g)) s \<and>
            gv_threadLocalMode g = m \<and> gv_isThreadLocal g))
   \<and>
   (module0 mangledName = None \<and> getArch triple = ppc \<longrightarrow>
      (\<exists>g. declareGlobal triple m loc module0 type0 mangledName isConstant True useDLLImport s =
              Returned (g, module0(mangledName \<mapsto> g)) s \<and>
            gv_threadLocalMode g = LocalExecTLSModel))
   \<and>
   (module0 mangledName = None \<and> getArch triple \<in> {wasm32, wasm64, avr} \<longrightarrow>
      (\<exists>g. declareGlobal triple m loc module0 type0 mangledName isConstant True useDLLImport s =
              Returned (g, module0(mangledName \<mapsto> g)) s \<and>
            gv_threadLocalMode g = NotThreadLocal))
   \<and>
   clThreadModel [] = Some GeneralDynamicTLSModel \<and>
   clThreadModel [''global-dynamic''] = Some GeneralDynamicTLSModel \<and>
   clThreadModel [''local-dynamic''] = Some LocalDynamicTLSModel \<and>
   clThreadModel [''initial-exec''] = Some InitialExecTLSModel \<and>
   clThreadModel [''local-exec''] = Some LocalExecTLSModel"
proof (intro conjI impI)
  assume h: "clThreadModel opts = Some m \<and> module0 mangledName = None \<and>
    getArch triple \<notin> {wasm32, wasm64, avr, ppc}"
  then have "m \<noteq> NotThreadLocal" using clThreadModel_is_tls by blast
  with h show "\<exists>g. declareGlobal triple m loc module0 type0 mangledName isConstant True
        useDLLImport s = Returned (g, module0(mangledName \<mapsto> g)) s \<and>
      gv_threadLocalMode g = m \<and> gv_isThreadLocal g"
    unfolding declareGlobal_def Let_def by (simp add: gv_isThreadLocal_def)
next
  assume "module0 mangledName = None \<and> getArch triple = ppc"
  then show "\<exists>g. declareGlobal triple m loc module0 type0 mangledName isConstant True
        useDLLImport s = Returned (g, module0(mangledName \<mapsto> g)) s \<and>
      gv_threadLocalMode g = LocalExecTLSModel"
    unfolding declareGlobal_def Let_def by simp
next
  assume "module0 mangledName = None \<and> getArch triple \<in> {wasm32, wasm64, avr}"
  then show "\<exists>g. declareGlobal triple m loc module0 type0 mangledName isConstant True
        useDLLImport s = Returned (g, module0(mangledName \<mapsto> g)) s \<and>
      gv_threadLocalMode g = NotThreadLocal"
    unfolding declareGlobal_def Let_def by auto
qed (simp_all add: parseThreadModel_def)

text \<open>The option given twice, the last value \<^verbatim>\<open>initial-exec\<close>, on x86 Linux.\<close>

theorem declareGlobal_tls_model_witness:
  "\<exists>g. declareGlobal (triple_of x86 Linux) InitialExecTLSModel loc0 Map.empty (LLInt 32) ''x''
          False True False s0 = Returned (g, [''x'' \<mapsto> g]) s0 \<and>
        gv_threadLocalMode g = InitialExecTLSModel"
  using declareGlobal_tls_model
          [where opts = "[''local-exec'', ''initial-exec'']" and m = InitialExecTLSModel
             and ?module0.0 = Map.empty and mangledName = "''x''"
             and triple = "triple_of x86 Linux" and loc = loc0 and ?type0.0 = "LLInt 32"
             and isConstant = False and useDLLImport = False and s = s0]
  by (auto simp: parseThreadModel_def triple_of_def)

subsection \<open>The stages of \<^verbatim>\<open>rewriteFunctionType\<close>\<close>

lemma ftype_targetExceptions [simp]: "ftype (targetExceptions abi f) = ftype f"
  by (simp add: targetExceptions_def Let_def)

lemma ftype_passInEAX [simp]: "ftype (passInEAX f) = ftype f"
  by (simp add: passInEAX_def split: option.splits)

lemma ftype_rewriteNonPODArgs [simp]: "ftype (rewriteNonPODArgs abi f) = ftype f"
  by (simp add: rewriteNonPODArgs_def Let_def)

lemma ftype_rewriteReturnValue [simp]: "ftype (rewriteReturnValue f) = ftype f"
  by (simp add: rewriteReturnValue_def Let_def)

lemma ret_targetExceptions [simp]: "ret (targetExceptions abi f) = ret f"
  by (simp add: targetExceptions_def Let_def)

lemma ret_passInEAX [simp]: "ret (passInEAX f) = ret f"
  by (simp add: passInEAX_def split: option.splits)

lemma ret_rewriteNonPODArgs [simp]: "ret (rewriteNonPODArgs abi f) = ret f"
  by (simp add: rewriteNonPODArgs_def Let_def)

lemma implicit_rewriteReturnValue [simp]:
  "arg_this (rewriteReturnValue f) = arg_this f"
  "arg_nest (rewriteReturnValue f) = arg_nest f"
  "arg_sret (rewriteReturnValue f) = arg_sret f"
  "args (rewriteReturnValue f) = args f"
  by (simp_all add: rewriteReturnValue_def Let_def)

lemma implicit_rewriteNonPODArgs [simp]:
  "arg_this (rewriteNonPODArgs abi f) = arg_this f"
  "arg_nest (rewriteNonPODArgs abi f) = arg_nest f"
  "arg_sret (rewriteNonPODArgs abi f) = arg_sret f"
  by (simp_all add: rewriteNonPODArgs_def Let_def)

lemma implicit_targetExceptions [simp]:
  "arg_this (targetExceptions abi f) = arg_this f"
  "arg_nest (targetExceptions abi f) = arg_nest f"
  "arg_sret (targetExceptions abi f) = arg_sret f"
  by (simp_all add: targetExceptions_def Let_def)


lemma args_rewriteNonPODArgs:
  "args (rewriteNonPODArgs abi f) =
     (if isMSVC abi \<and> linkage (ftype f) = LINK_cpp then args f else map byvalStep (args f))"
  by (simp add: rewriteNonPODArgs_def Let_def byvalStep_def)

lemma InReg_byvalStep: "InReg \<in> attrs (byvalStep a) \<Longrightarrow> InReg \<in> attrs a"
  by (simp add: byvalStep_def indirectByvalRewrite_applyTo_def split: if_splits)

lemma workaroundIssue1356_map: "workaroundIssue1356 abi as = map (alignStep abi) as"
  by (induction as) (auto simp: workaroundIssue1356_def alignStep_def)

lemma InReg_alignStep [simp]: "InReg \<in> attrs (alignStep abi a) \<longleftrightarrow> InReg \<in> attrs a"
  by (simp add: alignStep_def removeAttribute_def)

lemma set_eraseEmptyStructs: "set (eraseEmptyStructs as) \<subseteq> set as"
  by (induction as) auto

lemma args_targetExceptions:
  "args (targetExceptions abi f) =
     (if isExternD (ftype f) \<or> \<not> isDarwin abi then map (alignStep abi) (args f)
      else eraseEmptyStructs (map (alignStep abi) (args f)))"
  by (simp add: targetExceptions_def Let_def workaroundIssue1356_map)

lemma atype_byvalStep [simp]: "atype (byvalStep a) = atype a"
  by (simp add: byvalStep_def indirectByvalRewrite_applyTo_def)

lemma atype_alignStep [simp]: "atype (alignStep abi a) = atype a"
  by (simp add: alignStep_def removeAttribute_def)

lemma implicit_passInEAX:
  "arg_this (passInEAX f) = map_option (addAttribute InReg) (arg_this f)"
  "arg_nest (passInEAX f) =
     (if arg_this f = None then map_option (addAttribute InReg) (arg_nest f) else arg_nest f)"
  "arg_sret (passInEAX f) =
     (if arg_this f = None \<and> arg_nest f = None
      then map_option (\<lambda>sret. addAttribute InReg (removeAttribute StructRet sret)) (arg_sret f)
      else arg_sret f)"
  by (simp_all add: passInEAX_def split: option.splits)

lemma args_passInEAX:
  "args (passInEAX f) =
     (if arg_this f = None \<and> arg_nest f = None \<and> arg_sret f = None \<and> args f \<noteq> []
      then butlast (args f) @ [rewriteLastArg (last (args f))] else args f)"
  by (simp add: passInEAX_def split: option.splits)

lemma externD_args:
  assumes "isExternD (ftype fty)"
  shows "args (rewriteFunctionType abi fty) =
     map (alignStep abi)
       (if arg_this fty = None \<and> arg_nest fty = None \<and> arg_sret fty = None \<and> args fty \<noteq> []
        then butlast (map byvalStep (args fty)) @ [rewriteLastArg (byvalStep (last (args fty)))]
        else map byvalStep (args fty))"
proof -
  let ?f2 = "rewriteNonPODArgs abi (rewriteReturnValue fty)"
  have nocpp: "linkage (ftype fty) \<noteq> LINK_cpp" using assms by (auto simp: isExternD_def)
  have a2: "args ?f2 = map byvalStep (args fty)" using nocpp by (simp add: args_rewriteNonPODArgs)
  have r: "args (rewriteFunctionType abi fty) = map (alignStep abi) (args (passInEAX ?f2))"
    using assms by (simp add: rewriteFunctionType_def Let_def args_targetExceptions)
  show ?thesis by (simp add: r args_passInEAX a2 last_map)
qed

lemma externD_nth:
  assumes "isExternD (ftype fty)" and "i < length (args fty)"
    and "arg_this fty \<noteq> None \<or> arg_nest fty \<noteq> None \<or> arg_sret fty \<noteq> None \<or>
         Suc i < length (args fty)"
  shows "args (rewriteFunctionType abi fty) ! i = alignStep abi (byvalStep (args fty ! i))"
proof -
  define L where "L =
       (if arg_this fty = None \<and> arg_nest fty = None \<and> arg_sret fty = None \<and> args fty \<noteq> []
        then butlast (map byvalStep (args fty)) @ [rewriteLastArg (byvalStep (last (args fty)))]
        else map byvalStep (args fty))"
  have r: "args (rewriteFunctionType abi fty) = map (alignStep abi) L"
    using assms(1) by (simp add: externD_args L_def)
  have len: "length L = length (args fty)" using assms(2) by (auto simp: L_def)
  have "L ! i = byvalStep (args fty ! i)"
  proof (cases "arg_this fty = None \<and> arg_nest fty = None \<and> arg_sret fty = None \<and> args fty \<noteq> []")
    case True
    with assms(3) have i: "i < length (butlast (map byvalStep (args fty)))" by simp
    have "L ! i = butlast (map byvalStep (args fty)) ! i"
      using i True by (simp add: L_def nth_append)
    also have "\<dots> = map byvalStep (args fty) ! i" using i by (simp add: nth_butlast)
    also have "\<dots> = byvalStep (args fty ! i)" using assms(2) by simp
    finally show ?thesis .
  next
    case False
    then show ?thesis using assms(2) by (auto simp: L_def)
  qed
  then show ?thesis using len assms(2) by (simp add: r)
qed

lemma externD_length:
  "isExternD (ftype fty) \<Longrightarrow> length (args (rewriteFunctionType abi fty)) = length (args fty)"
  by (simp add: externD_args)

lemma implicit_rewriteFunctionType:
  "arg_this (rewriteFunctionType abi fty) =
     (if isExternD (ftype fty) then map_option (addAttribute InReg) (arg_this fty)
      else arg_this fty)"
  "arg_nest (rewriteFunctionType abi fty) =
     (if isExternD (ftype fty) \<and> arg_this fty = None
      then map_option (addAttribute InReg) (arg_nest fty) else arg_nest fty)"
  "arg_sret (rewriteFunctionType abi fty) =
     (if isExternD (ftype fty) \<and> arg_this fty = None \<and> arg_nest fty = None
      then map_option (\<lambda>sret. addAttribute InReg (removeAttribute StructRet sret)) (arg_sret fty)
      else arg_sret fty)"
  by (simp_all add: rewriteFunctionType_def Let_def implicit_passInEAX)

lemma notExternD_arg:
  assumes "\<not> isExternD (ftype fty)" and "a \<in> set (args (rewriteFunctionType abi fty))"
  shows "\<exists>a0 \<in> set (args fty). atype a = atype a0 \<and> (InReg \<in> attrs a \<longrightarrow> InReg \<in> attrs a0)"
proof -
  let ?f2 = "rewriteNonPODArgs abi (rewriteReturnValue fty)"
  have "a \<in> set (map (alignStep abi) (args ?f2))"
    using assms(1,2) set_eraseEmptyStructs [of "map (alignStep abi) (args ?f2)"]
    by (auto simp: rewriteFunctionType_def Let_def args_targetExceptions split: if_splits)
  then obtain b where b: "b \<in> set (args ?f2)" "a = alignStep abi b" by auto
  from b(1) have "b \<in> set (args fty) \<or> (\<exists>a0 \<in> set (args fty). b = byvalStep a0)"
    by (auto simp: args_rewriteNonPODArgs split: if_splits)
  then show ?thesis
  proof
    assume "b \<in> set (args fty)"
    with b(2) show ?thesis by auto
  next
    assume "\<exists>a0 \<in> set (args fty). b = byvalStep a0"
    then obtain a0 where "a0 \<in> set (args fty)" "b = byvalStep a0" by blast
    with b(2) show ?thesis using InReg_byvalStep by auto
  qed
qed

subsection \<open>Return by register or by hidden pointer\<close>




subsection \<open>Passing an argument in a register\<close>

text \<open>
  Claim C7. \<^verbatim>\<open>rewriteFunctionType\<close> marks an argument \<^verbatim>\<open>InReg\<close> only for a
  function type with the \<^verbatim>\<open>extern(D)\<close> calling convention: for any other function
  type the \<^verbatim>\<open>this\<close>, context and sret arguments are left as they were, and every
  explicit argument of the result is one of the original arguments, of the same type,
  and carries \<^verbatim>\<open>InReg\<close> only if that one did before. Under \<^verbatim>\<open>extern(D)\<close> exactly
  one argument is looked at: \<^verbatim>\<open>this\<close> if there is one, else the context pointer if
  there is one, else the sret pointer if there is one (it loses \<^verbatim>\<open>StructRet\<close>), else
  the last explicit argument. The explicit arguments keep their number, order and types,
  and none of them gains \<^verbatim>\<open>InReg\<close> except the last one of a function without
  \<^verbatim>\<open>this\<close>, context and sret argument: in a method, a nested function or a function
  returning through a hidden pointer no explicit argument is marked, whatever its type.
  When there is no \<^verbatim>\<open>this\<close>, context or sret argument and the last argument is
  passed by value, it is marked exactly when its type is not floating point and its size
  is 1, 2 or 4 bytes (so never a 3-byte struct); a struct or static array of such a size
  is first rewritten as the integer of its size, with its by-reference flag and
  attributes cleared. A last argument passed by reference or indirectly (a non-POD
  argument) is a pointer and is marked.
\<close>

theorem InReg_only_externD:
  "(\<not> isExternD (ftype fty) \<longrightarrow>
      arg_this (rewriteFunctionType abi fty) = arg_this fty \<and>
      arg_nest (rewriteFunctionType abi fty) = arg_nest fty \<and>
      arg_sret (rewriteFunctionType abi fty) = arg_sret fty \<and>
      (\<forall>a \<in> set (args (rewriteFunctionType abi fty)).
         \<exists>a0 \<in> set (args fty).
           atype a = atype a0 \<and> (InReg \<in> attrs a \<longrightarrow> InReg \<in> attrs a0)))
   \<and>
   (isExternD (ftype fty) \<longrightarrow>
      arg_this (rewriteFunctionType abi fty) = map_option (addAttribute InReg) (arg_this fty) \<and>
      arg_nest (rewriteFunctionType abi fty) =
        (if arg_this fty = None then map_option (addAttribute InReg) (arg_nest fty)
         else arg_nest fty) \<and>
      arg_sret (rewriteFunctionType abi fty) =
        (if arg_this fty = None \<and> arg_nest fty = None
         then map_option (\<lambda>sret. addAttribute InReg (removeAttribute StructRet sret))
                (arg_sret fty)
         else arg_sret fty) \<and>
      length (args (rewriteFunctionType abi fty)) = length (args fty) \<and>
      (\<forall>i < length (args fty).
         arg_this fty \<noteq> None \<or> arg_nest fty \<noteq> None \<or> arg_sret fty \<noteq> None \<or>
         Suc i < length (args fty) \<longrightarrow>
           atype (args (rewriteFunctionType abi fty) ! i) = atype (args fty ! i) \<and>
           (InReg \<in> attrs (args (rewriteFunctionType abi fty) ! i) \<longrightarrow>
              InReg \<in> attrs (args fty ! i))))
   \<and>
   (isExternD (ftype fty) \<and> arg_this fty = None \<and> arg_nest fty = None \<and> arg_sret fty = None \<and>
    args fty \<noteq> [] \<and> InReg \<notin> attrs (last (args fty)) \<and>
    rewrite (last (args fty)) \<noteq> Some IndirectByvalRewrite \<and>
    (if byref (last (args fty)) then isByVal (last (args fty))
     else isPOD (atype (last (args fty))) False) \<longrightarrow>
      (InReg \<in> attrs (last (args (rewriteFunctionType abi fty))) \<longleftrightarrow>
         \<not> isfloating (toBasetype (atype (last (args fty)))) \<and>
         size' (toBasetype (atype (last (args fty)))) \<in> {1, 2, 4})
      \<and>
      (\<not> isfloating (toBasetype (atype (last (args fty)))) \<and>
       size' (toBasetype (atype (last (args fty)))) \<in> {1, 2, 4} \<and>
       ty (toBasetype (atype (last (args fty)))) \<in> {Tstruct, Tsarray} \<longrightarrow>
         last (args (rewriteFunctionType abi fty)) =
           (last (args fty))\<lparr>rewrite := Some IntegerRewrite,
                               ltype := LLInt (8 * size' (atype (last (args fty)))),
                               byref := False, attrs := {InReg}\<rparr>))
   \<and>
   (isExternD (ftype fty) \<and> arg_this fty = None \<and> arg_nest fty = None \<and> arg_sret fty = None \<and>
    args fty \<noteq> [] \<and>
    (rewrite (last (args fty)) = Some IndirectByvalRewrite \<or>
     (if byref (last (args fty)) then \<not> isByVal (last (args fty))
      else \<not> isPOD (atype (last (args fty))) False)) \<longrightarrow>
      InReg \<in> attrs (last (args (rewriteFunctionType abi fty))))"
proof (intro conjI impI allI ballI)
  assume "\<not> isExternD (ftype fty)"
  then show "arg_this (rewriteFunctionType abi fty) = arg_this fty"
    and "arg_nest (rewriteFunctionType abi fty) = arg_nest fty"
    and "arg_sret (rewriteFunctionType abi fty) = arg_sret fty"
    by (simp_all add: implicit_rewriteFunctionType)
next
  fix a
  assume "\<not> isExternD (ftype fty)" "a \<in> set (args (rewriteFunctionType abi fty))"
  then show "\<exists>a0 \<in> set (args fty). atype a = atype a0 \<and> (InReg \<in> attrs a \<longrightarrow> InReg \<in> attrs a0)"
    by (rule notExternD_arg)
next
  assume e: "isExternD (ftype fty)"
  then show "arg_this (rewriteFunctionType abi fty) = map_option (addAttribute InReg) (arg_this fty)"
    and "arg_nest (rewriteFunctionType abi fty) =
        (if arg_this fty = None then map_option (addAttribute InReg) (arg_nest fty)
         else arg_nest fty)"
    and "arg_sret (rewriteFunctionType abi fty) =
        (if arg_this fty = None \<and> arg_nest fty = None
         then map_option (\<lambda>sret. addAttribute InReg (removeAttribute StructRet sret))
                (arg_sret fty)
         else arg_sret fty)"
    by (simp_all add: implicit_rewriteFunctionType)
  from e show "length (args (rewriteFunctionType abi fty)) = length (args fty)"
    by (rule externD_length)
next
  fix i
  assume e: "isExternD (ftype fty)" and i: "i < length (args fty)"
    and f: "arg_this fty \<noteq> None \<or> arg_nest fty \<noteq> None \<or> arg_sret fty \<noteq> None \<or>
         Suc i < length (args fty)"
  have n: "args (rewriteFunctionType abi fty) ! i = alignStep abi (byvalStep (args fty ! i))"
    using e i f by (rule externD_nth)
  show "atype (args (rewriteFunctionType abi fty) ! i) = atype (args fty ! i)"
    by (simp add: n)
  assume "InReg \<in> attrs (args (rewriteFunctionType abi fty) ! i)"
  then show "InReg \<in> attrs (args fty ! i)" using InReg_byvalStep by (simp add: n)
next
  assume h: "isExternD (ftype fty) \<and> arg_this fty = None \<and> arg_nest fty = None \<and>
    arg_sret fty = None \<and> args fty \<noteq> [] \<and> InReg \<notin> attrs (last (args fty)) \<and>
    rewrite (last (args fty)) \<noteq> Some IndirectByvalRewrite \<and>
    (if byref (last (args fty)) then isByVal (last (args fty))
     else isPOD (atype (last (args fty))) False)"
  let ?l0 = "last (args fty)"
  have bs: "byvalStep ?l0 = ?l0" using h by (auto simp: byvalStep_def split: if_splits)
  have l: "last (args (rewriteFunctionType abi fty)) = alignStep abi (rewriteLastArg ?l0)"
    using h bs by (simp add: externD_args last_map)
  have byval: "\<not> (rewrite ?l0 = Some IndirectByvalRewrite \<or> (byref ?l0 \<and> \<not> isByVal ?l0))"
    using h by (auto split: if_splits)
  show "InReg \<in> attrs (last (args (rewriteFunctionType abi fty))) \<longleftrightarrow>
         \<not> isfloating (toBasetype (atype ?l0)) \<and> size' (toBasetype (atype ?l0)) \<in> {1, 2, 4}"
    using h byval unfolding l
    by (auto simp: rewriteLastArg_def Let_def addAttribute_def integerRewrite_applyTo_def)
  assume s: "\<not> isfloating (toBasetype (atype ?l0)) \<and> size' (toBasetype (atype ?l0)) \<in> {1, 2, 4} \<and>
       ty (toBasetype (atype ?l0)) \<in> {Tstruct, Tsarray}"
  have "rewriteLastArg ?l0 =
      ?l0\<lparr>rewrite := Some IntegerRewrite, ltype := LLInt (8 * size' (atype ?l0)),
           byref := False, attrs := {InReg}\<rparr>"
    using s byval
    by (auto simp: rewriteLastArg_def Let_def addAttribute_def integerRewrite_applyTo_def)
  then show "last (args (rewriteFunctionType abi fty)) =
      ?l0\<lparr>rewrite := Some IntegerRewrite, ltype := LLInt (8 * size' (atype ?l0)),
           byref := False, attrs := {InReg}\<rparr>"
    unfolding l by (simp add: alignStep_def isByVal_def)
next
  assume h: "isExternD (ftype fty) \<and> arg_this fty = None \<and> arg_nest fty = None \<and>
    arg_sret fty = None \<and> args fty \<noteq> [] \<and>
    (rewrite (last (args fty)) = Some IndirectByvalRewrite \<or>
     (if byref (last (args fty)) then \<not> isByVal (last (args fty))
      else \<not> isPOD (atype (last (args fty))) False))"
  let ?l0 = "last (args fty)"
  have l: "last (args (rewriteFunctionType abi fty)) =
      alignStep abi (rewriteLastArg (byvalStep ?l0))"
    using h by (simp add: externD_args last_map)
  have "rewrite (byvalStep ?l0) = Some IndirectByvalRewrite \<or>
        (byref (byvalStep ?l0) \<and> \<not> isByVal (byvalStep ?l0))"
    using h by (auto simp: byvalStep_def indirectByvalRewrite_applyTo_def isByVal_def
                     split: if_splits)
  then have "InReg \<in> attrs (rewriteLastArg (byvalStep ?l0))"
    by (auto simp: rewriteLastArg_def addAttribute_def)
  then show "InReg \<in> attrs (last (args (rewriteFunctionType abi fty)))"
    unfolding l by simp
qed

text \<open>
  An \<^verbatim>\<open>extern(D)\<close> function whose last argument is a 4-byte struct (marked), a
  3-byte struct or a \<^verbatim>\<open>float\<close> (not marked), whose first argument is an \<^verbatim>\<open>int\<close>
  (not marked), whose last argument is by reference (marked); an \<^verbatim>\<open>extern(D)\<close>
  method taking a \<^verbatim>\<open>float\<close> and an \<^verbatim>\<open>int\<close> (\<^verbatim>\<open>this\<close> marked, neither explicit
  argument marked); an \<^verbatim>\<open>extern(D)\<close> function with an sret pointer (the pointer
  marked, the \<^verbatim>\<open>int\<close> argument not); and an \<^verbatim>\<open>extern(C)\<close> method and function
  (nothing marked).
\<close>

theorem InReg_only_externD_witness:
  "InReg \<in> attrs (last (args (rewriteFunctionType (X86TargetABI_new (triple_of x86 Linux))
      ((fty_of LINK_d tvoid [])\<lparr>args := [arg_of tint32,
                                          (arg_of tstructS)\<lparr>byref := True, attrs := {ByVal}\<rparr>]\<rparr>))))
   \<and>
   InReg \<notin> attrs (last (args (rewriteFunctionType (X86TargetABI_new (triple_of x86 Linux))
      ((fty_of LINK_d tvoid [])\<lparr>args := [arg_of tint32,
                                          (arg_of tstruct3)\<lparr>byref := True, attrs := {ByVal}\<rparr>]\<rparr>))))
   \<and>
   InReg \<notin> attrs (last (args (rewriteFunctionType (X86TargetABI_new (triple_of x86 Linux))
      (fty_of LINK_d tvoid [tint32, tfloat32]))))
   \<and>
   InReg \<notin> attrs (args (rewriteFunctionType (X86TargetABI_new (triple_of x86 Linux))
      (fty_of LINK_d tvoid [tint32, tint32])) ! 0)
   \<and>
   InReg \<in> attrs (last (args (rewriteFunctionType (X86TargetABI_new (triple_of x86 Linux))
      ((fty_of LINK_d tvoid [])\<lparr>args := [arg_of tint32, (arg_of tint32)\<lparr>byref := True\<rparr>]\<rparr>))))
   \<and>
   arg_this (rewriteFunctionType (X86TargetABI_new (triple_of x86 Linux))
      ((fty_of LINK_d tvoid [tfloat32, tint32])\<lparr>arg_this := Some (arg_of tvoidptr)\<rparr>)) =
     Some ((arg_of tvoidptr)\<lparr>attrs := {InReg}\<rparr>)
   \<and>
   InReg \<notin> attrs (args (rewriteFunctionType (X86TargetABI_new (triple_of x86 Linux))
      ((fty_of LINK_d tvoid [tfloat32, tint32])\<lparr>arg_this := Some (arg_of tvoidptr)\<rparr>)) ! 0)
   \<and>
   InReg \<notin> attrs (args (rewriteFunctionType (X86TargetABI_new (triple_of x86 Linux))
      ((fty_of LINK_d tvoid [tfloat32, tint32])\<lparr>arg_this := Some (arg_of tvoidptr)\<rparr>)) ! 1)
   \<and>
   arg_sret (rewriteFunctionType (X86TargetABI_new (triple_of x86 Linux))
      ((fty_of LINK_d tvoid [tint32])\<lparr>arg_sret :=
          Some ((arg_of tvoidptr)\<lparr>attrs := {StructRet, NoAlias}\<rparr>)\<rparr>)) =
     Some ((arg_of tvoidptr)\<lparr>attrs := {InReg, NoAlias}\<rparr>)
   \<and>
   InReg \<notin> attrs (args (rewriteFunctionType (X86TargetABI_new (triple_of x86 Linux))
      ((fty_of LINK_d tvoid [tint32])\<lparr>arg_sret :=
          Some ((arg_of tvoidptr)\<lparr>attrs := {StructRet, NoAlias}\<rparr>)\<rparr>)) ! 0)
   \<and>
   arg_this (rewriteFunctionType (X86TargetABI_new (triple_of x86 Linux))
      ((fty_of LINK_c tvoid [tint32, tstructS])\<lparr>arg_this := Some (arg_of tvoidptr)\<rparr>)) =
     Some (arg_of tvoidptr)
   \<and>
   InReg \<notin> \<Union> (attrs ` set (args (rewriteFunctionType (X86TargetABI_new (triple_of x86 Linux))
                                       (fty_of LINK_c tvoid [tint32, tstructS]))))"
proof -
  let ?abi = "X86TargetABI_new (triple_of x86 Linux)"
  let ?f1 = "(fty_of LINK_d tvoid [])\<lparr>args := [arg_of tint32,
                (arg_of tstructS)\<lparr>byref := True, attrs := {ByVal}\<rparr>]\<rparr>"
  let ?f2 = "(fty_of LINK_d tvoid [])\<lparr>args := [arg_of tint32,
                (arg_of tstruct3)\<lparr>byref := True, attrs := {ByVal}\<rparr>]\<rparr>"
  let ?f3 = "fty_of LINK_d tvoid [tint32, tfloat32]"
  let ?f4 = "fty_of LINK_c tvoid [tint32, tstructS]"
  let ?f5 = "fty_of LINK_d tvoid [tint32, tint32]"
  let ?f6 = "(fty_of LINK_d tvoid [])\<lparr>args := [arg_of tint32, (arg_of tint32)\<lparr>byref := True\<rparr>]\<rparr>"
  let ?f7 = "(fty_of LINK_d tvoid [tfloat32, tint32])\<lparr>arg_this := Some (arg_of tvoidptr)\<rparr>"
  let ?f8 = "(fty_of LINK_d tvoid [tint32])\<lparr>arg_sret :=
          Some ((arg_of tvoidptr)\<lparr>attrs := {StructRet, NoAlias}\<rparr>)\<rparr>"
  let ?f9 = "(fty_of LINK_c tvoid [tint32, tstructS])\<lparr>arg_this := Some (arg_of tvoidptr)\<rparr>"
  note defs = fty_of_def tf_of_def arg_of_def isExternD_def isByVal_def isPOD_def
      tstructS_def tstruct3_def tfloat32_def tint32_def toBasetype_def
  note T = InReg_only_externD
  have a: "InReg \<in> attrs (last (args (rewriteFunctionType ?abi ?f1)))"
    using T [where fty = ?f1 and abi = ?abi] by (simp add: defs)
  have b: "InReg \<notin> attrs (last (args (rewriteFunctionType ?abi ?f2)))"
    using T [where fty = ?f2 and abi = ?abi] by (simp add: defs)
  have c: "InReg \<notin> attrs (last (args (rewriteFunctionType ?abi ?f3)))"
    using T [where fty = ?f3 and abi = ?abi] by (simp add: defs)
  have d: "\<forall>a \<in> set (args (rewriteFunctionType ?abi ?f4)). InReg \<notin> attrs a"
    using T [where fty = ?f4 and abi = ?abi] by (auto simp: defs)
  from d have d': "InReg \<notin> \<Union> (attrs ` set (args (rewriteFunctionType ?abi ?f4)))"
    by blast
  have e: "InReg \<notin> attrs (args (rewriteFunctionType ?abi ?f5) ! 0)"
    using T [where fty = ?f5 and abi = ?abi] by (auto simp: defs)
  have f: "InReg \<in> attrs (last (args (rewriteFunctionType ?abi ?f6)))"
    using T [where fty = ?f6 and abi = ?abi] by (simp add: defs)
  have g: "arg_this (rewriteFunctionType ?abi ?f7) = Some ((arg_of tvoidptr)\<lparr>attrs := {InReg}\<rparr>)"
    using T [where fty = ?f7 and abi = ?abi] by (simp add: defs addAttribute_def)
  have h: "InReg \<notin> attrs (args (rewriteFunctionType ?abi ?f7) ! 0)"
    using T [where fty = ?f7 and abi = ?abi] by (auto simp: defs)
  have i: "InReg \<notin> attrs (args (rewriteFunctionType ?abi ?f7) ! 1)"
    using T [where fty = ?f7 and abi = ?abi] by (auto simp: defs)
  have j: "arg_sret (rewriteFunctionType ?abi ?f8) =
      Some ((arg_of tvoidptr)\<lparr>attrs := {InReg, NoAlias}\<rparr>)"
    using T [where fty = ?f8 and abi = ?abi]
    by (auto simp: defs addAttribute_def removeAttribute_def)
  have k: "InReg \<notin> attrs (args (rewriteFunctionType ?abi ?f8) ! 0)"
    using T [where fty = ?f8 and abi = ?abi] by (auto simp: defs)
  have l: "arg_this (rewriteFunctionType ?abi ?f9) = Some (arg_of tvoidptr)"
    using T [where fty = ?f9 and abi = ?abi] by (simp add: defs)
  from a b c d' e f g h i j k l show ?thesis by blast
qed

subsection \<open>The two entry points of constant folding\<close>

text \<open>
  Claim C6 says that \<^verbatim>\<open>toConstElem\<close>, when the expression is not representable at
  compile time, terminates the compilation unless errors are gagged. A reference to a
  variable that is not a constant is reported by \<^verbatim>\<open>visit(VarExp *)\<close> without
  \<^verbatim>\<open>fatalError\<close>: with no gagging at all, \<^verbatim>\<open>toConstElem\<close> prints the error and
  returns the undefined value.
\<close>

theorem toConstElem_counterexample:
  "toConstElem F0 (VarExp loc0 tint32 ''x'' (VarDeclaration False None 0)) s0 =
     Returned (Some (UndefValue (LLInt 32)))
       (s0\<lparr>diagnostics := [(loc0, ''non-constant expression `x`'')], errors := 1\<rparr>)
   \<and> gag s0 = 0"
  by (simp add: toConstElem_def undefIfNull_def non_constant_expression_msg_def error_def
        s0_def tint32_def DtoType_def)

text \<open>
  Claim C6, amended. The constant folder has two entry points. \<^verbatim>\<open>toConstElem\<close> never
  returns null: whenever the visitor yields no constant it returns an undefined constant
  of the expression's type. For an expression kind the visitor does not handle, it
  reports an error and terminates the compilation unless errors are gagged, in which case
  it returns that undefined constant; for a reference to a variable that is not a
  constant it reports the error and returns the undefined constant without terminating,
  gagged or not. \<^verbatim>\<open>tryToConstElem\<close> runs the fold with the gag depth raised and, when
  it returns, returns null exactly when the fold counted new gagged errors and the
  visitor's non-null constant otherwise, with the gag depth lowered again and the count
  restored; for an expression kind the visitor does not handle it returns null and leaves
  the build context as it found it.
\<close>

theorem toConstElem_entry_points:
  "(toConstElem X e s = Returned r s' \<longrightarrow> r \<noteq> None)
   \<and>
   (process X e s = Returned None s' \<longrightarrow>
      toConstElem X e s = Returned (Some (UndefValue (DtoType (etype e)))) s')
   \<and>
   toConstElem X (OtherExp l t c) s =
     (if gag s = 0 then Fatal (error l (not_constant_msg c) s)
      else Returned (Some (UndefValue (DtoType t))) (error l (not_constant_msg c) s))
   \<and>
   toConstElem X (VarExp l t c (VarDeclaration False i n)) s =
     Returned (Some (UndefValue (DtoType t))) (error l (non_constant_expression_msg c) s)
   \<and>
   (tryToConstElem X e s = Returned r s' \<longrightarrow>
      (\<exists>ce s2. process X e (s\<lparr>gag := gag s + 1\<rparr>) = Returned ce s2 \<and>
         (r = None \<longleftrightarrow> gaggedErrors s2 \<noteq> gaggedErrors s) \<and>
         (r \<noteq> None \<longrightarrow> r = ce) \<and>
         s' = s2\<lparr>gag := gag s2 - 1, gaggedErrors := gaggedErrors s\<rparr>))
   \<and>
   tryToConstElem X (OtherExp l t c) s = Returned None s"
proof (intro conjI impI)
  assume "toConstElem X e s = Returned r s'"
  then show "r \<noteq> None"
    by (auto simp: toConstElem_def undefIfNull_def split: outcome.splits if_splits)
next
  assume "process X e s = Returned None s'"
  then show "toConstElem X e s = Returned (Some (UndefValue (DtoType (etype e)))) s'"
    by (simp add: toConstElem_def undefIfNull_def)
next
  have g: "gag (error l (not_constant_msg c) s) = gag s" by (simp add: error_def)
  show "toConstElem X (OtherExp l t c) s =
     (if gag s = 0 then Fatal (error l (not_constant_msg c) s)
      else Returned (Some (UndefValue (DtoType t))) (error l (not_constant_msg c) s))"
    by (simp add: toConstElem_def undefIfNull_def fatalError_def g)
next
  show "toConstElem X (VarExp l t c (VarDeclaration False i n)) s =
     Returned (Some (UndefValue (DtoType t))) (error l (non_constant_expression_msg c) s)"
    by (cases i) (simp_all add: toConstElem_def undefIfNull_def)
next
  assume "tryToConstElem X e s = Returned r s'"
  then show "\<exists>ce s2. process X e (s\<lparr>gag := gag s + 1\<rparr>) = Returned ce s2 \<and>
         (r = None \<longleftrightarrow> gaggedErrors s2 \<noteq> gaggedErrors s) \<and>
         (r \<noteq> None \<longrightarrow> r = ce) \<and>
         s' = s2\<lparr>gag := gag s2 - 1, gaggedErrors := gaggedErrors s\<rparr>"
    by (auto simp: tryToConstElem_def startGagging_def endGagging_def
             split: outcome.splits if_splits)
next
  show "tryToConstElem X (OtherExp l t c) s = Returned None s"
    by (simp add: tryToConstElem_def startGagging_def endGagging_def fatalError_def error_def)
qed

text \<open>
  An integer literal, a variable that is not a constant, and an unhandled expression, with
  and without gagging.
\<close>

theorem toConstElem_entry_points_witness:
  "Some (ConstantInt (LLInt 32) 7) \<noteq> None
   \<and>
   toConstElem F0 (VarExp loc0 tint32 ''x'' (VarDeclaration False None 0)) (s0\<lparr>gag := 1\<rparr>) =
     Returned (Some (UndefValue (LLInt 32))) (s0\<lparr>gag := 1, gaggedErrors := 1\<rparr>)
   \<and>
   toConstElem F0 (OtherExp loc0 tint32 ''f()'') s0 =
     Fatal (s0\<lparr>diagnostics := [(loc0, ''expression `f()` is not a constant'')], errors := 1\<rparr>)
   \<and>
   toConstElem F0 (OtherExp loc0 tint32 ''f()'') (s0\<lparr>gag := 1\<rparr>) =
     Returned (Some (UndefValue (LLInt 32))) (s0\<lparr>gag := 1, gaggedErrors := 1\<rparr>)
   \<and>
   (\<exists>ce s2. process F0 (IntegerExp loc0 tint32 ''7'' 7) (s0\<lparr>gag := gag s0 + 1\<rparr>) = Returned ce s2 \<and>
      Some (ConstantInt (LLInt 32) 7) = ce \<and> gaggedErrors s2 = gaggedErrors s0)
   \<and>
   tryToConstElem F0 (OtherExp loc0 tint32 ''f()'') s0 = Returned None s0"
proof -
  let ?seven = "IntegerExp loc0 tint32 ''7'' 7"
  let ?x = "VarExp loc0 tint32 ''x'' (VarDeclaration False None 0)"
  note ints = tint32_def DtoType_def isaPointer_def isaInteger_def intWidth_def Let_def
  have t1: "toConstElem F0 ?seven s0 = Returned (Some (ConstantInt (LLInt 32) 7)) s0"
    by (simp add: toConstElem_def undefIfNull_def ints)
  have a: "Some (ConstantInt (LLInt 32) 7) \<noteq> None"
    using toConstElem_entry_points [where X = F0 and e = ?seven and s = s0
        and r = "Some (ConstantInt (LLInt 32) 7)" and s' = s0] t1 by blast
  have p2: "process F0 ?x (s0\<lparr>gag := 1\<rparr>) = Returned None (s0\<lparr>gag := 1, gaggedErrors := 1\<rparr>)"
    by (simp add: error_def s0_def)
  have b: "toConstElem F0 ?x (s0\<lparr>gag := 1\<rparr>) =
      Returned (Some (UndefValue (LLInt 32))) (s0\<lparr>gag := 1, gaggedErrors := 1\<rparr>)"
    using toConstElem_entry_points [where X = F0 and e = ?x and s = "s0\<lparr>gag := 1\<rparr>"
        and s' = "s0\<lparr>gag := 1, gaggedErrors := 1\<rparr>"] p2
    by (simp add: tint32_def DtoType_def)
  have c: "toConstElem F0 (OtherExp loc0 tint32 ''f()'') s0 =
      Fatal (s0\<lparr>diagnostics := [(loc0, ''expression `f()` is not a constant'')], errors := 1\<rparr>)"
    using toConstElem_entry_points [where X = F0 and l = loc0 and t = tint32 and c = "''f()''"
        and s = s0]
    by (simp add: error_def s0_def not_constant_msg_def)
  have d: "toConstElem F0 (OtherExp loc0 tint32 ''f()'') (s0\<lparr>gag := 1\<rparr>) =
      Returned (Some (UndefValue (LLInt 32))) (s0\<lparr>gag := 1, gaggedErrors := 1\<rparr>)"
    using toConstElem_entry_points [where X = F0 and l = loc0 and t = tint32 and c = "''f()''"
        and s = "s0\<lparr>gag := 1\<rparr>"]
    by (simp add: error_def s0_def tint32_def DtoType_def)
  have t2: "tryToConstElem F0 ?seven s0 = Returned (Some (ConstantInt (LLInt 32) 7)) s0"
    by (simp add: tryToConstElem_def startGagging_def endGagging_def s0_def ints)
  have e: "\<exists>ce s2. process F0 ?seven (s0\<lparr>gag := gag s0 + 1\<rparr>) = Returned ce s2 \<and>
      Some (ConstantInt (LLInt 32) 7) = ce \<and> gaggedErrors s2 = gaggedErrors s0"
    using toConstElem_entry_points [where X = F0 and e = ?seven and s = s0
        and r = "Some (ConstantInt (LLInt 32) 7)" and s' = s0] t2 by blast
  have f: "tryToConstElem F0 (OtherExp loc0 tint32 ''f()'') s0 = Returned None s0"
    using toConstElem_entry_points [where X = F0 and l = loc0 and t = tint32 and c = "''f()''"
        and s = s0] by blast
  from a b c d e f show ?thesis by blast
qed

end
